theory Spec2Isabelle
  imports Complex_Main
begin

section \<open>Strings\<close>

text \<open>
  A Python \<open>str\<close> is a sequence of Unicode code points: \<open>len\<close> counts code points and
  \<open>ord(c) > 127\<close> looks at one code point. A string is therefore a list of code points
  (natural numbers), not a list of bytes. ASCII literals are written through \<open>ascii\<close>;
  the CJK literals of the source are written as their code points.
\<close>

type_synonym ustr = "nat list"

definition ascii :: "string \<Rightarrow> ustr" where
  "ascii s = map of_char s"

text \<open>
  \<open>str.isspace\<close> of CPython: the code points whose Unicode category is Zs or whose
  bidirectional class is WS, B or S. \<open>str.strip()\<close> and \<open>str.split()\<close> without argument use
  this set.
\<close>

definition py_isspace :: "nat \<Rightarrow> bool" where
  "py_isspace c \<longleftrightarrow>
     (9 \<le> c \<and> c \<le> 13) \<or> (28 \<le> c \<and> c \<le> 32) \<or> c = 133 \<or> c = 160 \<or> c = 5760 \<or>
     (8192 \<le> c \<and> c \<le> 8202) \<or> c = 8232 \<or> c = 8233 \<or> c = 8239 \<or> c = 8287 \<or> c = 12288"

text \<open>\<open>s.lstrip(chars)\<close>, \<open>s.strip()\<close>, \<open>s.startswith(p)\<close>.\<close>

definition lstrip_chars :: "nat list \<Rightarrow> ustr \<Rightarrow> ustr" where
  "lstrip_chars chars s = dropWhile (\<lambda>c. c \<in> set chars) s"

definition strip :: "ustr \<Rightarrow> ustr" where
  "strip s = rev (dropWhile py_isspace (rev (dropWhile py_isspace s)))"

definition startswith :: "ustr \<Rightarrow> ustr \<Rightarrow> bool" where
  "startswith s p \<longleftrightarrow> take (length p) s = p"

text \<open>\<open>s.split(sep)\<close> for a one-character separator: always at least one piece.\<close>

fun split_on :: "nat \<Rightarrow> ustr \<Rightarrow> ustr list" where
  "split_on d [] = [[]]"
| "split_on d (c # cs) =
     (if c = d then [] # split_on d cs
      else (let ls = split_on d cs in (c # hd ls) # tl ls))"

text \<open>\<open>sep.join(pieces)\<close>.\<close>

fun join :: "ustr \<Rightarrow> ustr list \<Rightarrow> ustr" where
  "join sep [] = []"
| "join sep [x] = x"
| "join sep (x # y # ys) = x @ sep @ join sep (y # ys)"

text \<open>
  \<open>s.split()\<close>: the maximal runs of non-whitespace code points, in order; never an
  empty piece. \<open>cur\<close> is the run being read.
\<close>

fun split_ws_from :: "ustr \<Rightarrow> ustr \<Rightarrow> ustr list" where
  "split_ws_from cur [] = (if cur = [] then [] else [cur])"
| "split_ws_from cur (c # cs) =
     (if py_isspace c then (if cur = [] then split_ws_from [] cs else cur # split_ws_from [] cs)
      else split_ws_from (cur @ [c]) cs)"

definition split_ws :: "ustr \<Rightarrow> ustr list" where
  "split_ws s = split_ws_from [] s"

text \<open>A word: what \<open>split()\<close> can return, a non-empty run without whitespace.\<close>

definition is_word :: "ustr \<Rightarrow> bool" where
  "is_word w \<longleftrightarrow> w \<noteq> [] \<and> list_all (\<lambda>c. \<not> py_isspace c) w"

section \<open>Text metrics (\<open>calculate_text_width\<close>, \<open>wrap_text\<close>)\<close>

text \<open>
  \<open>calculate_text_width\<close> multiplies character counts by the font size and by the float
  constants 0.9 and 0.6. The width is modelled as an exact rational: the rounding of
  IEEE doubles is not modelled. The results about \<open>wrap_text\<close> below do not depend on the
  values of the widths, only on the comparisons being evaluated once per candidate line.
\<close>

definition calculate_text_width :: "ustr \<Rightarrow> rat \<Rightarrow> rat" where
  "calculate_text_width text font_size =
     (let chinese_chars = length (filter (\<lambda>c. c > 127) text);
          english_chars = length text - chinese_chars;
          chinese_width = of_nat chinese_chars * font_size * (9 / 10);
          english_width = of_nat english_chars * font_size * (6 / 10)
      in chinese_width + english_width)"

text \<open>
  The body of the \<open>for word in words\<close> loop of \<open>wrap_text\<close>; the loop state is the pair
  \<open>(lines, current_line)\<close>.
\<close>

definition wrap_step :: "rat \<Rightarrow> rat \<Rightarrow> ustr list \<times> ustr \<Rightarrow> ustr \<Rightarrow> ustr list \<times> ustr" where
  "wrap_step max_width font_size st word =
     (let lines = fst st; current_line = snd st;
          test_line = current_line @ (if current_line \<noteq> [] then [32] else []) @ word
      in if calculate_text_width test_line font_size \<le> max_width
         then (lines, test_line)
         else ((if current_line \<noteq> [] then lines @ [current_line] else lines), word))"

definition wrap_text :: "ustr \<Rightarrow> rat \<Rightarrow> rat \<Rightarrow> ustr list" where
  "wrap_text text max_width font_size =
     (if calculate_text_width text font_size \<le> max_width then [text]
      else
        (let words = split_ws text;
             st = foldl (wrap_step max_width font_size) ([], []) words;
             lines = (if snd st \<noteq> [] then fst st @ [snd st] else fst st)
         in if lines \<noteq> [] then lines else [text]))"

text \<open>
  The wrapping as the specification words it: the first word opens a line; each next
  word is added to the current line (after one space) when the candidate stays within
  the budget, and otherwise closes the current line and starts a new one.
\<close>

fun greedy_pack :: "rat \<Rightarrow> rat \<Rightarrow> ustr \<Rightarrow> ustr list \<Rightarrow> ustr list" where
  "greedy_pack max_width font_size cur [] = [cur]"
| "greedy_pack max_width font_size cur (w # ws) =
     (if calculate_text_width (cur @ [32] @ w) font_size \<le> max_width
      then greedy_pack max_width font_size (cur @ [32] @ w) ws
      else cur # greedy_pack max_width font_size w ws)"

definition spec_wrap :: "ustr \<Rightarrow> rat \<Rightarrow> rat \<Rightarrow> ustr list" where
  "spec_wrap text max_width font_size =
     (if calculate_text_width text font_size \<le> max_width then [text]
      else (case split_ws text of [] \<Rightarrow> [text] | w # ws \<Rightarrow> greedy_pack max_width font_size w ws))"

section \<open>Outline parser (\<open>parse_markdown_to_simple_structure\<close>)\<close>

text \<open>
  The parser's dictionaries \<open>{'level', 'title', 'type'}\<close> and the tree builder's
  \<open>{'title', 'items'}\<close> (a subtopic) and \<open>{'title', 'subtopics', 'items'}\<close> (a topic) share
  the key \<open>'title'\<close>; the records extend one another so that the keys keep their names.
  The \<open>'items'\<close> of a topic are the bullets that precede its first subtopic.
\<close>

datatype node_type = Heading | Item

record titled =
  title :: ustr

record node = titled +
  level :: nat
  ntype :: node_type

record subtopic = titled +
  items :: "ustr list"

record topic = subtopic +
  subtopics :: "subtopic list"

text \<open>The body of the \<open>for line in lines\<close> loop: the nodes one physical line appends.\<close>

definition parse_line :: "ustr \<Rightarrow> node list" where
  "parse_line raw =
     (let line = strip raw in
      if line = [] then []
      else if startswith line [35] then
        [\<lparr>title = strip (lstrip_chars [35, 32] line),
          level = length line - length (lstrip_chars [35] line),
          ntype = Heading\<rparr>]
      else if startswith line [45] then
        [\<lparr>title = strip (lstrip_chars [45, 32] line), level = 0, ntype = Item\<rparr>]
      else [])"

definition parse_markdown_to_simple_structure :: "ustr \<Rightarrow> node list" where
  "parse_markdown_to_simple_structure markdown_content =
     concat (map parse_line (split_on 10 (strip markdown_content)))"

section \<open>Tree builder (first loop of \<open>create_simple_svg_mindmap\<close>)\<close>

text \<open>
  The loop keeps the list \<open>main_topics\<close> and the reference \<open>current_topic\<close>, which aliases
  an element of that list: an update through \<open>current_topic\<close> is an update of the list.
  The reference is modelled as the index of the element it points to.
\<close>

record builder =
  main_topics :: "topic list"
  current_topic :: "nat option"

definition append_item :: "topic \<Rightarrow> ustr \<Rightarrow> topic" where
  "append_item t x =
     (if subtopics t \<noteq> []
      then t\<lparr>subtopics :=
             butlast (subtopics t) @ [(last (subtopics t))\<lparr>items := items (last (subtopics t)) @ [x]\<rparr>]\<rparr>
      else t\<lparr>items := items t @ [x]\<rparr>)"

definition build_step :: "builder \<Rightarrow> node \<Rightarrow> builder" where
  "build_step b item =
     (if ntype item = Heading then
        (if level item = 1 then
           \<lparr>main_topics = main_topics b @ [\<lparr>title = title item, items = [], subtopics = []\<rparr>],
            current_topic = Some (length (main_topics b))\<rparr>
         else if level item = 2 then
           (case current_topic b of
              Some i \<Rightarrow>
                b\<lparr>main_topics := (main_topics b)
                     [i := (main_topics b ! i)\<lparr>subtopics :=
                             subtopics (main_topics b ! i) @ [\<lparr>title = title item, items = []\<rparr>]\<rparr>]\<rparr>
            | None \<Rightarrow> b)
         else b)
      else
        (case current_topic b of
           Some i \<Rightarrow> b\<lparr>main_topics := (main_topics b)[i := append_item (main_topics b ! i) (title item)]\<rparr>
         | None \<Rightarrow> b))"

definition build_topics :: "node list \<Rightarrow> builder" where
  "build_topics structure = foldl build_step \<lparr>main_topics = [], current_topic = None\<rparr> structure"

text \<open>
  The aliasing invariant of the loop: \<open>current_topic\<close> is \<open>None\<close> while no topic exists and
  refers to the last element of \<open>main_topics\<close> afterwards.
\<close>

definition cursor_ok :: "builder \<Rightarrow> bool" where
  "cursor_ok b \<longleftrightarrow>
     current_topic b = (if main_topics b = [] then None else Some (length (main_topics b) - 1))"

text \<open>The canned structure used when the loop found no level-1 heading.\<close>

definition default_topic :: topic where
  "default_topic =
     \<lparr>title = [20154, 24037, 26234, 24935, 30340, 26410, 20358],
      items = [],
      subtopics =
        [\<lparr>title = [25216, 34899, 30332, 23637],
          items = [[27231, 22120, 23416, 32722, 36914, 27493],
                   [28145, 24230, 23416, 32722, 31361, 30772],
                   [33258, 28982, 35486, 35328, 34389, 29702]]\<rparr>,
         \<lparr>title = [25033, 29992, 38936, 22495],
          items = [[37291, 30274, 35386, 26039],
                   [26234, 33021, 20132, 36890],
                   [37329, 34701, 31185, 25216]]\<rparr>]\<rparr>"

section \<open>Diagram layout and renderer (\<open>create_simple_svg_mindmap\<close>)\<close>

text \<open>
  Exceptions are values. \<open>HTTPException\<close> carries its status code and detail; every other
  exception is \<open>Exception m\<close>, where \<open>m\<close> is what \<open>str(e)\<close> returns.
\<close>

datatype exn = HTTPException nat ustr | Exception ustr

definition and_then :: "exn + 'a \<Rightarrow> ('a \<Rightarrow> exn + 'b) \<Rightarrow> exn + 'b" where
  "and_then m f = (case m of Inl e \<Rightarrow> Inl e | Inr x \<Rightarrow> f x)"

text \<open>A loop whose body may raise: the pieces appended by each round, in order.\<close>

fun for_each :: "('a \<Rightarrow> exn + 'b list) \<Rightarrow> 'a list \<Rightarrow> exn + 'b list" where
  "for_each f [] = Inr []"
| "for_each f (x # xs) =
     and_then (f x) (\<lambda>ys. and_then (for_each f xs) (\<lambda>zs. Inr (ys @ zs)))"

text \<open>
  A Python number is an \<open>int\<close> or a \<open>float\<close>; the f-string prints the two differently,
  and \<open>max(160, w)\<close> returns the \<open>int\<close> 160 unless the float \<open>w\<close> is greater. Floats are exact
  rationals here: a width, and a coordinate obtained from it by floor division, can
  differ from the double that the source computes when the double is rounded. The
  closed instances below draw every box at its minimum size, where all numbers are
  \<open>int\<close>s.
\<close>

datatype number = PyInt int | PyFloat rat

fun value_of :: "number \<Rightarrow> rat" where
  "value_of (PyInt i) = of_int i"
| "value_of (PyFloat r) = r"

definition py_max :: "number \<Rightarrow> number \<Rightarrow> number" where
  "py_max a b = (if value_of b > value_of a then b else a)"

fun py_add :: "number \<Rightarrow> number \<Rightarrow> number" where
  "py_add (PyInt a) (PyInt b) = PyInt (a + b)"
| "py_add a b = PyFloat (value_of a + value_of b)"

fun py_sub :: "number \<Rightarrow> number \<Rightarrow> number" where
  "py_sub (PyInt a) (PyInt b) = PyInt (a - b)"
| "py_sub a b = PyFloat (value_of a - value_of b)"

fun py_floordiv :: "number \<Rightarrow> int \<Rightarrow> number" where
  "py_floordiv (PyInt a) d = PyInt (a div d)"
| "py_floordiv (PyFloat r) d = PyFloat (of_int \<lfloor>r / of_int d\<rfloor>)"

text \<open>
  \<open>max(calculate_text_width(line, font_size) for line in lines)\<close>: \<open>max\<close> of an empty
  sequence raises \<open>ValueError\<close>.
\<close>

definition max_line_width :: "ustr list \<Rightarrow> rat \<Rightarrow> exn + rat" where
  "max_line_width lines font_size =
     (case map (\<lambda>line. calculate_text_width line font_size) lines of
        [] \<Rightarrow> Inl (Exception (ascii ''max() arg is an empty sequence''))
      | x # xs \<Rightarrow> Inr (foldl max x xs))"

text \<open>
  The document. Its header (XML declaration, gradients, shadow filter, style sheet and
  background rectangle) is a literal that depends on the canvas size and the fixed
  palette only; what the renderer computes is the sequence of drawn elements, kept here
  in emission order with their numeric attributes. The constant attributes of a tag
  (fill, corner radius, filter, CSS class) are named by its style.
\<close>

datatype rect_style = MainRect | BranchRect | ItemRect

datatype text_class = MainTitle | BranchTitle | ItemText

datatype element =
    Rect number number number number rect_style
  | Text number number text_class ustr
  | Path number number number number number number
  | Line number number number number bool

record svg =
  svg_width :: int
  svg_height :: int
  elements :: "element list"

text \<open>
  The innermost loop body (one item box of a subtopic): the connector from the
  subtopic box, the item box, and one text element per wrapped line.
\<close>

definition render_item :: "number \<Rightarrow> number \<Rightarrow> int \<Rightarrow> number \<Rightarrow> nat \<times> ustr \<Rightarrow> exn + element list" where
  "render_item branch_start_x branch_width branch_y item_start_x ji =
     (let j = int (fst ji);
          item_y = branch_y + (j - 2) * 30;
          item_lines = wrap_text (snd ji) 150 11
      in and_then (max_line_width item_lines 11) (\<lambda>m.
           let item_width = py_max (PyInt 100) (PyFloat (m + 20));
               item_height = max 20 (int (length item_lines) * 14 + 6)
           in Inr
                ([Line (py_add branch_start_x branch_width) (PyInt branch_y)
                       item_start_x (PyInt item_y) True,
                  Rect item_start_x (PyInt (item_y - item_height div 2))
                       item_width (PyInt item_height) ItemRect]
                 @ map (\<lambda>kl. Text (py_add item_start_x (PyInt 10))
                                 (PyInt (item_y - (int (length item_lines) - 1) * 7
                                           + int (fst kl) * 14 + 3))
                                 ItemText (snd kl))
                       (enumerate 0 item_lines))))"

text \<open>
  The body of the loop over the subtopics: the curved connector from the root box, the
  short segment into the subtopic box, the box, its title lines, and its first five
  items.
\<close>

definition render_subtopic ::
    "int \<Rightarrow> number \<Rightarrow> int \<Rightarrow> number \<Rightarrow> int \<Rightarrow> int \<Rightarrow> nat \<times> subtopic \<Rightarrow> exn + element list" where
  "render_subtopic main_x title_width main_y branch_start_x start_y branch_spacing isub =
     (let i = int (fst isub); subtopic = snd isub;
          branch_y = start_y + i * branch_spacing;
          branch_title_lines = wrap_text (title subtopic) 200 14
      in and_then (max_line_width branch_title_lines 14) (\<lambda>m.
           let branch_width = py_max (PyInt 120) (PyFloat (m + 30));
               branch_height = max 35 (int (length branch_title_lines) * 18 + 10);
               item_start_x = py_add (py_add branch_start_x branch_width) (PyInt 30)
           in and_then
                (for_each (render_item branch_start_x branch_width branch_y item_start_x)
                   (enumerate 0 (take 5 (items subtopic))))
                (\<lambda>item_elements.
                   Inr
                     ([Path (py_add (PyInt main_x) (py_floordiv title_width 2)) (PyInt main_y)
                            (py_sub branch_start_x (PyInt 20)) (PyInt main_y)
                            (py_sub branch_start_x (PyInt 20)) (PyInt branch_y),
                       Line (py_sub branch_start_x (PyInt 20)) (PyInt branch_y)
                            branch_start_x (PyInt branch_y) False,
                       Rect branch_start_x (PyInt (branch_y - branch_height div 2))
                            branch_width (PyInt branch_height) BranchRect]
                      @ map (\<lambda>jl. Text (py_add branch_start_x (py_floordiv branch_width 2))
                                      (PyInt (branch_y - (int (length branch_title_lines) - 1) * 9
                                                + int (fst jl) * 18 + 4))
                                      BranchTitle (snd jl))
                            (enumerate 0 branch_title_lines)
                      @ item_elements))))"

text \<open>The root box and the fan of subtopics of one topic, on a canvas of the given height.\<close>

definition render_topic :: "int \<Rightarrow> topic \<Rightarrow> exn + element list" where
  "render_topic height main_topic =
     (let main_y = height div 2;
          main_x = 100;
          main_title_lines = wrap_text (title main_topic) 300 18
      in and_then (max_line_width main_title_lines 18) (\<lambda>m.
           let title_width = py_max (PyInt 160) (PyFloat (m + 40));
               title_height = max 50 (int (length main_title_lines) * 22 + 10);
               branch_start_x = py_add (py_add (PyInt main_x) (py_floordiv title_width 2)) (PyInt 50);
               total_branches = int (length (subtopics main_topic))
           in and_then
                (if total_branches > 0
                 then (let branch_spacing = min 150 ((height - 200) div total_branches);
                           start_y = main_y - (total_branches - 1) * branch_spacing div 2
                       in for_each
                            (render_subtopic main_x title_width main_y branch_start_x start_y
                               branch_spacing)
                            (enumerate 0 (subtopics main_topic)))
                 else Inr [])
                (\<lambda>branch_elements.
                   Inr
                     ([Rect (py_sub (PyInt main_x) (py_floordiv title_width 2))
                            (PyInt (main_y - title_height div 2))
                            title_width (PyInt title_height) MainRect]
                      @ map (\<lambda>il. Text (PyInt main_x)
                                      (PyInt (main_y - (int (length main_title_lines) - 1) * 11
                                                + int (fst il) * 22 + 5))
                                      MainTitle (snd il))
                            (enumerate 0 main_title_lines)
                      @ branch_elements))))"

definition create_simple_svg_mindmap :: "node list \<Rightarrow> exn + svg" where
  "create_simple_svg_mindmap structure =
     (let width = 1200;
          height = 800;
          found = main_topics (build_topics structure);
          main_topics' = (if found = [] then [default_topic] else found)
      in and_then
           (case main_topics' of
              [] \<Rightarrow> Inr []
            | main_topic # _ \<Rightarrow> render_topic height main_topic)
           (\<lambda>drawn. Inr \<lparr>svg_width = width, svg_height = height, elements = drawn\<rparr>))"

section \<open>Room data and external collaborators\<close>

text \<open>
  The room store (\<open>ROOMS\<close>, \<open>topics\<close>, \<open>votes\<close> of \<open>participants_api\<close>), the AI client
  (\<open>ai_client.ensure_workspace_exists\<close>, \<open>transparent_fusion.process_request\<close>), the file
  system, the temporary file and the clock are outside this module. They are the fields
  of a \<open>world\<close> that every operation receives and returns. A world is the environment
  of one call: another call meets another world, with another clock reading and another
  name for its temporary file. The dictionaries are typed by
  the keys this module reads; a key read with \<open>.get\<close> is optional. The attributes
  \<open>room_code\<close> and \<open>custom_content\<close> of a request are the fields \<open>req_room_code\<close> and
  \<open>req_custom_content\<close>. A collaborator that can
  raise returns \<open>exn + result\<close>. \<open>process_request\<close> is always called with
  \<open>task_type="mindmap"\<close>, which is left out.
\<close>

record request =
  req_room_code :: "ustr option"
  req_custom_content :: "ustr option"

record room =
  room_title :: "ustr option"
  workspace_slug :: "ustr option"

record comment =
  comment_id :: "ustr option"
  nickname :: "ustr option"
  content :: "ustr option"

record topic_data =
  room_id :: ustr
  topic_name :: "ustr option"
  comments :: "comment list option"

record vote =
  good :: "ustr list option"
  bad :: "ustr list option"

record datetime =
  year :: nat
  month :: nat
  day :: nat
  hour :: nat
  minute :: nat
  second :: nat

record world =
  ROOMS :: "ustr \<Rightarrow> room option"
  topics :: "(ustr \<times> topic_data) list"
  votes :: "ustr \<Rightarrow> vote option"
  ensure_workspace_exists :: "ustr \<Rightarrow> ustr \<Rightarrow> exn + ustr"
  process_request :: "ustr \<Rightarrow> ustr \<Rightarrow> exn + ustr"
  files :: "ustr \<Rightarrow> (exn + ustr) option"
  named_temporary_file :: "svg \<Rightarrow> exn + ustr"
  now :: datetime

text \<open>\<open>d.get(key, default)\<close> on an optional key, and the decimal digits of \<open>str(n)\<close>.\<close>

definition get_or :: "'a option \<Rightarrow> 'a \<Rightarrow> 'a" where
  "get_or x d = (case x of None \<Rightarrow> d | Some v \<Rightarrow> v)"

function show_nat :: "nat \<Rightarrow> ustr" where
  "show_nat n = (if n < 10 then [48 + n] else show_nat (n div 10) @ [48 + n mod 10])"
  by pat_completeness auto
termination
  by (relation "measure id") auto

declare show_nat.simps [simp del]

text \<open>
  \<open>str(e)\<close>. An \<open>HTTPException\<close> prints as Starlette prints it, status code and detail;
  any other exception carries its own text.
\<close>

fun str_exn :: "exn \<Rightarrow> ustr" where
  "str_exn (HTTPException status_code detail) = show_nat status_code @ ascii '': '' @ detail"
| "str_exn (Exception m) = m"

text \<open>\<open>strftime("%Y%m%d_%H%M%S")\<close>, for a year of four digits.\<close>

definition pad2 :: "nat \<Rightarrow> ustr" where
  "pad2 n = (if n < 10 then [48] else []) @ show_nat n"

definition strftime :: "datetime \<Rightarrow> ustr" where
  "strftime t =
     show_nat (year t) @ pad2 (month t) @ pad2 (day t) @ ascii ''_''
       @ pad2 (hour t) @ pad2 (minute t) @ pad2 (second t)"

section \<open>Prompt builder (\<open>build_mindmap_prompt\<close>)\<close>

definition vote_count :: "world \<Rightarrow> ustr option \<Rightarrow> (vote \<Rightarrow> ustr list option) \<Rightarrow> nat" where
  "vote_count w cid side =
     (case cid of
        None \<Rightarrow> 0
      | Some k \<Rightarrow> (case votes w k of None \<Rightarrow> 0 | Some v \<Rightarrow> length (get_or (side v) [])))"

definition comment_line :: "world \<Rightarrow> comment \<Rightarrow> ustr" where
  "comment_line w c =
     ascii ''- '' @ get_or (nickname c) [21311, 21517] @ ascii '': '' @ get_or (content c) []
       @ ascii '' ('' @ [128077] @ show_nat (vote_count w (comment_id c) good)
       @ ascii '' '' @ [128078] @ show_nat (vote_count w (comment_id c) bad)
       @ ascii '')'' @ [10]"

definition topic_block :: "world \<Rightarrow> topic_data \<Rightarrow> ustr" where
  "topic_block w topic_data =
     ascii ''## '' @ [20027, 38988] @ ascii '': ''
       @ get_or (topic_name topic_data) [26410, 21629, 21517, 20027, 38988] @ [10, 10]
       @ (case comments topic_data of
            None \<Rightarrow> []
          | Some cs \<Rightarrow>
              if cs = [] then []
              else [30041, 35328] @ ascii '':'' @ [10] @ concat (map (comment_line w) cs) @ [10])"

definition prompt_intro :: ustr where
  "prompt_intro =
     [35531, 28858, 20197, 19979, 35342, 35542, 23460, 30340, 20839, 23481, 29983, 25104, 19968,
      20491, 32080, 27083, 21270, 30340, 24515, 26234, 22294]
     @ ascii '' Markdown '' @ [26684, 24335, 32317, 32080, 12290]"

definition prompt_requirements :: ustr where
  "prompt_requirements =
     [10, 35531, 26681, 25818, 20197, 19978, 20839, 23481] @ ascii '','' @ [29983, 25104, 19968, 20491, 32080, 27083, 21270, 30340, 24515, 26234, 22294] @ ascii '' Markdown '' @ [26684, 24335] @ ascii '':'' @ [10, 10, 35201, 27714] @ ascii '':'' @ [10] @ ascii ''1. '' @ [20351, 29992] @ ascii '' # '' @ [20316, 28858, 20027, 27161, 38988] @ ascii '' ('' @ [20027, 38988, 21015, 34920] @ ascii '')'' @ [10] @ ascii ''2. '' @ [20351, 29992] @ ascii '' ## '' @ [20316, 28858, 27425, 32026, 27161, 38988] @ ascii '' ('' @ [21508, 20491, 35342, 35542, 20027, 38988] @ ascii '')'' @ [10] @ ascii ''3. '' @ [20351, 29992] @ ascii '' - '' @ [20316, 28858, 35201, 40670, 21015, 34920] @ ascii '' ('' @ [37325, 35201, 35264, 40670, 12289, 20849, 35672, 12289, 20998, 27495, 40670] @ ascii '')'' @ [10] @ ascii ''4. '' @ [20839, 23481, 35201, 31934, 29001, 12289, 32080, 27083, 28165, 26224, 10] @ ascii ''5. '' @ [31361, 20986, 37325, 40670, 21644, 20849, 35672, 10] @ ascii ''6. '' @ [27161, 27880, 26377, 29229, 35696, 30340, 35264, 40670, 10] @ ascii ''7. '' @ [20351, 29992, 32321, 39636, 20013, 25991, 10, 10, 31684, 20363, 26684, 24335] @ ascii '':'' @ [10] @ ascii ''# '' @ [35342, 35542, 20027, 38988, 21517, 31281, 10] @ ascii ''## '' @ [20027, 38988, 19968, 10] @ ascii ''- '' @ [20027, 35201, 35264, 40670] @ ascii ''1'' @ [10] @ ascii ''- '' @ [20027, 35201, 35264, 40670] @ ascii ''2'' @ [10] @ ascii ''- '' @ [20849, 35672] @ ascii '': xxx'' @ [10] @ ascii ''## '' @ [20027, 38988, 20108] @ ascii ''  '' @ [10] @ ascii ''- '' @ [37325, 40670] @ ascii ''1'' @ [10] @ ascii ''- '' @ [37325, 40670] @ ascii ''2'' @ [10] @ ascii ''- '' @ [20998, 27495] @ ascii '': xxx'' @ [10, 10, 35531, 30452, 25509, 36664, 20986] @ ascii '' Markdown '' @ [26684, 24335] @ ascii '','' @ [19981, 35201, 20219, 20309, 21069, 32180, 35498, 26126] @ ascii '':'' @ [10]"

definition build_mindmap_prompt :: "world \<Rightarrow> ustr \<Rightarrow> ustr option" where
  "build_mindmap_prompt w room_code =
     (case ROOMS w room_code of
        None \<Rightarrow> None
      | Some room_data \<Rightarrow>
          (let room_topics = filter (\<lambda>it. room_id (snd it) = room_code) (topics w) in
           if room_topics = [] then
             Some (prompt_intro
                   @ [30446, 21069, 35342, 35542, 23460, 36996, 27794, 26377, 20219, 20309, 20027,
                      38988, 12290, 10])
           else
             Some (prompt_intro
                   @ [35342, 35542, 20027, 38988, 33287, 20839, 23481] @ ascii '':'' @ [10, 10]
                   @ concat (map (\<lambda>it. topic_block w (snd it)) room_topics)
                   @ prompt_requirements)))"

section \<open>Request orchestrator (\<open>generate_mindmap\<close>, \<open>preview_mindmap_markdown\<close>)\<close>

text \<open>
  The removal of a Markdown code fence, written out twice in the source (lines 365-368
  of \<open>generate_mindmap\<close> and 481-484 of \<open>preview_mindmap_markdown\<close>) with the same text:
  \<open>lines[1:-1]\<close> joined by newlines when the trimmed text starts with three backticks
  (code point 96) and has more than two lines.
\<close>

definition clean_code_fence :: "ustr \<Rightarrow> ustr" where
  "clean_code_fence returned =
     (let markdown_content = strip returned in
      if startswith markdown_content [96, 96, 96] then
        (let lines = split_on 10 markdown_content in
         if length lines > 2 then join [10] (butlast (tl lines)) else markdown_content)
      else markdown_content)"

text \<open>
  The AI interaction, also written out twice (lines 344-369 and 464-484): take the
  cached workspace of the room or create one and store it in \<open>ROOMS\<close>, ask for the
  Markdown, clean it. \<open>room_data\<close> is \<open>ROOMS[room_code]\<close>, which the caller has just found
  present; only its \<open>workspace_slug\<close> is ever assigned, so its title is the same before
  and after. The result is the exception raised or the cleaned Markdown, and the world
  with the stored workspace.
\<close>

definition ensure_workspace :: "world \<Rightarrow> ustr \<Rightarrow> room \<Rightarrow> (exn + ustr) \<times> world" where
  "ensure_workspace w room_code room_data =
     (case ensure_workspace_exists w room_code
             (get_or (room_title room_data) ([35342, 35542, 23460] @ ascii ''-'' @ room_code)) of
        Inl e \<Rightarrow> (Inl e, w)
      | Inr slug \<Rightarrow>
          (Inr slug,
           w\<lparr>ROOMS := (ROOMS w)(room_code \<mapsto> room_data\<lparr>workspace_slug := Some slug\<rparr>)\<rparr>))"

definition resolve_workspace :: "world \<Rightarrow> ustr \<Rightarrow> room \<Rightarrow> (exn + ustr) \<times> world" where
  "resolve_workspace w room_code room_data =
     (case workspace_slug room_data of
        None \<Rightarrow> ensure_workspace w room_code room_data
      | Some slug \<Rightarrow>
          if slug = [] then ensure_workspace w room_code room_data else (Inr slug, w))"

definition ai_markdown :: "world \<Rightarrow> ustr \<Rightarrow> room \<Rightarrow> ustr \<Rightarrow> (exn + ustr) \<times> world" where
  "ai_markdown w room_code room_data prompt =
     (let resolved = resolve_workspace w room_code room_data
      in (case fst resolved of
            Inl e \<Rightarrow> Inl e
          | Inr slug \<Rightarrow>
              (case process_request w prompt slug of
                 Inl e \<Rightarrow> Inl e
               | Inr returned \<Rightarrow> Inr (clean_code_fence returned)),
          snd resolved))"

text \<open>
  Lines 326-373: the branch of \<open>generate_mindmap\<close> for a request with a room code. An
  exception of the AI interaction is caught and replaced by a one-line document.
\<close>

definition room_markdown :: "world \<Rightarrow> ustr \<Rightarrow> (exn + ustr) \<times> world" where
  "room_markdown w room_code =
     (case ROOMS w room_code of
        None \<Rightarrow>
          (Inl (HTTPException 404
                  ([25214, 19981, 21040, 35342, 35542, 23460] @ ascii '': '' @ room_code)), w)
      | Some room_data \<Rightarrow>
          (case build_mindmap_prompt w room_code of
             None \<Rightarrow>
               (Inl (HTTPException 400
                       ([28961, 27861, 27083, 24314, 24515, 26234, 22294] @ ascii '' prompt'')), w)
           | Some prompt \<Rightarrow>
               if prompt = [] then
                 (Inl (HTTPException 400
                         ([28961, 27861, 27083, 24314, 24515, 26234, 22294] @ ascii '' prompt'')), w)
               else
                 (let r = ai_markdown w room_code room_data prompt in
                  (case fst r of
                     Inl e \<Rightarrow>
                       Inr (ascii ''# '' @ get_or (room_title room_data) [35342, 35542, 32317, 32080])
                   | Inr markdown_content \<Rightarrow> Inr markdown_content,
                   snd r))))"

text \<open>Lines 381-410: the first of three files that exists, or the built-in example.\<close>

definition default_example :: ustr where
  "default_example =
     ascii ''# AI'' @ [24515, 26234, 22294, 31034, 20363, 10]
     @ ascii ''## '' @ [20154, 24037, 26234, 24935, 25033, 29992, 10]
     @ ascii ''- '' @ [27231, 22120, 23416, 32722, 10]
     @ ascii ''- '' @ [28145, 24230, 23416, 32722, 10]
     @ ascii ''- '' @ [33258, 28982, 35486, 35328, 34389, 29702, 10]
     @ ascii ''## '' @ [25216, 34899, 30332, 23637, 10]
     @ ascii ''- '' @ [31070, 32147, 32178, 36335, 10]
     @ ascii ''- '' @ [22823, 22411, 35486, 35328, 27169, 22411, 10]
     @ ascii ''- '' @ [38651, 33126, 35222, 35258]"

definition file_markdown :: "world \<Rightarrow> exn + ustr" where
  "file_markdown w =
     (case List.map_filter (files w)
             [ascii ''frontend/public/AIresult.txt'',
              ascii ''/app/frontend/public/AIresult.txt'',
              ascii ''../frontend/public/AIresult.txt''] of
        [] \<Rightarrow> Inr default_example
      | r # _ \<Rightarrow> r)"

text \<open>Lines 322-410: the choice of the content source.\<close>

definition choose_markdown :: "world \<Rightarrow> request option \<Rightarrow> (exn + ustr) \<times> world" where
  "choose_markdown w request =
     (case request of
        None \<Rightarrow> (file_markdown w, w)
      | Some r \<Rightarrow>
          if get_or (req_room_code r) [] \<noteq> []
          then room_markdown w (get_or (req_room_code r) [])
          else if get_or (req_custom_content r) [] \<noteq> []
          then (Inr (get_or (req_custom_content r) []), w)
          else (file_markdown w, w))"

text \<open>
  The response of \<open>generate_mindmap\<close>: the \<open>FileResponse\<close> and, as \<open>document\<close>, what was
  written to the temporary file it names.
\<close>

record file_response =
  path :: ustr
  media_type :: ustr
  filename :: ustr
  document :: svg

text \<open>
  The two \<open>except\<close> clauses that close \<open>generate_mindmap\<close> (lines 438-444): an
  \<open>HTTPException\<close> passes, anything else becomes status 500.
\<close>

definition generate_handler :: "exn \<Rightarrow> exn" where
  "generate_handler e =
     (case e of
        HTTPException status_code detail \<Rightarrow> e
      | Exception m \<Rightarrow>
          HTTPException 500
            ([29983, 25104, 24515, 26234, 22294, 26178, 30332, 29983, 37679, 35492] @ ascii '': ''
             @ str_exn e))"

text \<open>
  Lines 412-436: parse the chosen Markdown, refuse an empty outline, render, write the
  temporary file and answer with it.
\<close>

definition render_response :: "world \<Rightarrow> ustr \<Rightarrow> exn + file_response" where
  "render_response w markdown_content =
     (let structure = parse_markdown_to_simple_structure markdown_content in
      if structure = [] then
        Inl (HTTPException 400
               ([28961, 27861, 35299, 26512] @ ascii ''markdown'' @ [20839, 23481]))
      else
        and_then (create_simple_svg_mindmap structure) (\<lambda>svg_content.
        and_then (named_temporary_file w svg_content) (\<lambda>name.
          Inr \<lparr>path = name,
               media_type = ascii ''image/svg+xml'',
               filename = ascii ''mindmap_'' @ strftime (now w) @ ascii ''.svg'',
               document = svg_content\<rparr>)))"

definition generate_mindmap :: "world \<Rightarrow> request option \<Rightarrow> (exn + file_response) \<times> world" where
  "generate_mindmap w request =
     (let chosen = choose_markdown w request;
          w' = snd chosen
      in (case and_then (fst chosen) (render_response w') of
            Inl e \<Rightarrow> Inl (generate_handler e)
          | Inr response \<Rightarrow> Inr response,
          w'))"

text \<open>The dictionary that \<open>preview_mindmap_markdown\<close> returns.\<close>

record preview_response =
  res_room_code :: ustr
  res_room_title :: "ustr option"
  markdown :: ustr
  prompt_used :: ustr

text \<open>Lines 450-491: the body of the \<open>try\<close> of \<open>preview_mindmap_markdown\<close>.\<close>

definition preview_body :: "world \<Rightarrow> request \<Rightarrow> (exn + preview_response) \<times> world" where
  "preview_body w request =
     (if get_or (req_room_code request) [] = [] then
        (Inl (HTTPException 400 ([38656, 35201, 25552, 20379] @ ascii '' room_code'')), w)
      else
        (let room_code = get_or (req_room_code request) [] in
         case ROOMS w room_code of
           None \<Rightarrow>
             (Inl (HTTPException 404
                     ([25214, 19981, 21040, 35342, 35542, 23460] @ ascii '': '' @ room_code)), w)
         | Some room_data \<Rightarrow>
             (case build_mindmap_prompt w room_code of
                None \<Rightarrow>
                  (Inl (HTTPException 400
                          ([28961, 27861, 27083, 24314, 24515, 26234, 22294] @ ascii '' prompt'')), w)
              | Some prompt \<Rightarrow>
                  if prompt = [] then
                    (Inl (HTTPException 400
                            ([28961, 27861, 27083, 24314, 24515, 26234, 22294] @ ascii '' prompt'')), w)
                  else
                    (let r = ai_markdown w room_code room_data prompt in
                     (case fst r of
                        Inl e \<Rightarrow> Inl e
                      | Inr markdown_content \<Rightarrow>
                          Inr \<lparr>res_room_code = room_code,
                               res_room_title = room_title room_data,
                               markdown = markdown_content,
                               prompt_used = prompt\<rparr>,
                      snd r)))))"

text \<open>
  Lines 493-494: the single \<open>except Exception\<close> of the preview. \<open>HTTPException\<close> is a
  subclass of \<open>Exception\<close>, so this clause also catches the \<open>HTTPException\<close>s raised in
  the body.
\<close>

definition preview_mindmap_markdown ::
    "world \<Rightarrow> request \<Rightarrow> (exn + preview_response) \<times> world" where
  "preview_mindmap_markdown w request =
     (let r = preview_body w request in
      (case fst r of
         Inl e \<Rightarrow> Inl (HTTPException 500 ([38928, 35261, 22833, 25943] @ ascii '': '' @ str_exn e))
       | Inr response \<Rightarrow> Inr response,
       snd r))"

section \<open>Example worlds\<close>

text \<open>
  Concrete collaborators for the closed instances below: a store without rooms whose
  AI call fails, the same with one room \<open>R1\<close> titled \<open>Plan\<close> that has a cached workspace,
  and that room with an AI that answers with a fenced outline.
\<close>

definition no_rooms_world :: world where
  "no_rooms_world =
     \<lparr>ROOMS = (\<lambda>k. None),
      topics = [],
      votes = (\<lambda>k. None),
      ensure_workspace_exists = (\<lambda>room_code t. Inr room_code),
      process_request = (\<lambda>prompt slug. Inl (Exception (ascii ''connection refused''))),
      files = (\<lambda>p. None),
      named_temporary_file = (\<lambda>d. Inr (ascii ''/tmp/tmpmap.svg'')),
      now = \<lparr>year = 2025, month = 3, day = 9, hour = 14, minute = 5, second = 0\<rparr>\<rparr>"

definition plan_room :: room where
  "plan_room = \<lparr>room_title = Some (ascii ''Plan''), workspace_slug = Some (ascii ''ws1'')\<rparr>"

definition one_room_world :: world where
  "one_room_world = no_rooms_world\<lparr>ROOMS := (\<lambda>k. if k = ascii ''R1'' then Some plan_room else None)\<rparr>"

definition answering_world :: world where
  "answering_world =
     one_room_world\<lparr>process_request :=
       (\<lambda>prompt slug. Inr ([96, 96, 96] @ ascii ''markdown\<newline># A\<newline>- x\<newline>'' @ [96, 96, 96, 10]))\<rparr>"

section \<open>Properties of the text metrics\<close>

lemma split_ws_from_words:
  "list_all (\<lambda>c. \<not> py_isspace c) cur \<Longrightarrow> list_all is_word (split_ws_from cur s)"
  by (induction s arbitrary: cur) (auto simp: is_word_def)

lemma split_ws_words: "list_all is_word (split_ws s)"
  by (simp add: split_ws_def split_ws_from_words)

lemma split_ws_from_sep:
  "py_isspace c \<Longrightarrow> split_ws_from cur (s @ c # t) = split_ws_from cur s @ split_ws_from [] t"
  by (induction s arbitrary: cur) auto

lemma split_ws_from_run:
  "list_all (\<lambda>c. \<not> py_isspace c) w \<Longrightarrow> cur @ w \<noteq> [] \<Longrightarrow> split_ws_from cur w = [cur @ w]"
  by (induction w arbitrary: cur) auto

lemma split_ws_word: "is_word w \<Longrightarrow> split_ws w = [w]"
  using split_ws_from_run [of w "[]"] by (simp add: split_ws_def is_word_def)

lemma split_ws_add_word:
  "is_word w \<Longrightarrow> split_ws (cur @ 32 # w) = split_ws cur @ [w]"
  using split_ws_from_sep [of 32 "[]" cur w] split_ws_word [of w]
  by (simp add: split_ws_def py_isspace_def)

lemma words_greedy_pack:
  "list_all is_word ws \<Longrightarrow>
   concat (map split_ws (greedy_pack mw fs cur ws)) = split_ws cur @ ws"
  by (induction ws arbitrary: cur) (auto simp: split_ws_add_word split_ws_word)

lemma wrap_step_first: "wrap_step mw fs ([], []) w = ([], w)"
  by (simp add: wrap_step_def)

text \<open>
  The loop invariant of \<open>wrap_text\<close>: once a word has been read, \<open>current_line\<close> is not
  empty, and closing it after the remaining words gives the lines of the greedy packing.
\<close>

lemma wrap_loop_greedy:
  "cur \<noteq> [] \<Longrightarrow> list_all (\<lambda>w. w \<noteq> []) ws \<Longrightarrow>
   snd (foldl (wrap_step mw fs) (ls, cur) ws) \<noteq> [] \<and>
   fst (foldl (wrap_step mw fs) (ls, cur) ws) @ [snd (foldl (wrap_step mw fs) (ls, cur) ws)]
     = ls @ greedy_pack mw fs cur ws"
proof (induction ws arbitrary: ls cur)
  case Nil
  then show ?case by simp
next
  case (Cons w ws)
  show ?case
  proof (cases "calculate_text_width (cur @ [32] @ w) fs \<le> mw")
    case True
    then have "wrap_step mw fs (ls, cur) w = (ls, cur @ [32] @ w)"
      using Cons.prems by (simp add: wrap_step_def)
    then show ?thesis using Cons.IH [of "cur @ [32] @ w" ls] Cons.prems True by simp
  next
    case False
    then have "wrap_step mw fs (ls, cur) w = (ls @ [cur], w)"
      using Cons.prems by (simp add: wrap_step_def)
    then show ?thesis using Cons.IH [of w "ls @ [cur]"] Cons.prems False by simp
  qed
qed

lemma greedy_pack_nonempty: "greedy_pack mw fs cur ws \<noteq> []"
  by (induction ws arbitrary: cur) auto

lemma is_word_nonempty: "list_all is_word ws \<Longrightarrow> list_all (\<lambda>w. w \<noteq> []) ws"
  by (induction ws) (auto simp: is_word_def)

lemma wrap_text_refines: "wrap_text s mw fs = spec_wrap s mw fs"
proof (cases "calculate_text_width s fs \<le> mw")
  case True
  then show ?thesis by (simp add: wrap_text_def spec_wrap_def)
next
  case False
  show ?thesis
  proof (cases "split_ws s")
    case Nil
    with False show ?thesis by (simp add: wrap_text_def spec_wrap_def)
  next
    case (Cons w ws)
    have "list_all is_word (w # ws)" using split_ws_words [of s] Cons by simp
    then have w: "w \<noteq> []" and ws: "list_all (\<lambda>w. w \<noteq> []) ws"
      using is_word_nonempty [of ws] by (simp_all add: is_word_def)
    from wrap_loop_greedy [OF w ws, of mw fs "[]"] False Cons show ?thesis
      by (simp add: wrap_text_def spec_wrap_def wrap_step_first Let_def greedy_pack_nonempty)
  qed
qed

lemma spec_wrap_words:
  assumes "\<not> calculate_text_width s fs \<le> mw"
  shows "concat (map split_ws (spec_wrap s mw fs)) = split_ws s"
proof (cases "split_ws s")
  case Nil
  with assms show ?thesis by (simp add: spec_wrap_def)
next
  case (Cons w ws)
  have "list_all is_word (w # ws)" using split_ws_words [of s] Cons by simp
  then show ?thesis using assms Cons words_greedy_pack [of ws mw fs w]
    by (simp add: spec_wrap_def split_ws_word)
qed

text \<open>
  C4. For every text, width budget and font size: a text that fits is returned as the
  single line \<open>[text]\<close>. Otherwise the text is split on whitespace and the lines are the
  greedy packing of its words (a word that would overflow closes the current line and
  starts the next one; a text without words is returned whole), and the words of the
  returned lines, concatenated, are exactly the words of the input, in order.
\<close>

theorem wrap_text_greedy_words:
  "(calculate_text_width s fs \<le> mw \<longrightarrow> wrap_text s mw fs = [s]) \<and>
   (\<not> calculate_text_width s fs \<le> mw \<longrightarrow>
      wrap_text s mw fs = (case split_ws s of [] \<Rightarrow> [s] | w # ws \<Rightarrow> greedy_pack mw fs w ws) \<and>
      concat (map split_ws (wrap_text s mw fs)) = split_ws s)"
proof (intro conjI impI)
  assume "calculate_text_width s fs \<le> mw"
  then show "wrap_text s mw fs = [s]" by (simp add: wrap_text_def)
next
  assume over: "\<not> calculate_text_width s fs \<le> mw"
  then show "wrap_text s mw fs = (case split_ws s of [] \<Rightarrow> [s] | w # ws \<Rightarrow> greedy_pack mw fs w ws)"
    by (simp add: wrap_text_refines spec_wrap_def)
  from over show "concat (map split_ws (wrap_text s mw fs)) = split_ws s"
    by (simp add: wrap_text_refines spec_wrap_words)
qed

theorem wrap_text_greedy_words_witness:
  "\<not> calculate_text_width (ascii ''aa bb cc'') 10 \<le> 30 \<and>
   wrap_text (ascii ''aa bb cc'') 30 10 = [ascii ''aa bb'', ascii ''cc''] \<and>
   concat (map split_ws (wrap_text (ascii ''aa bb cc'') 30 10))
     = [ascii ''aa'', ascii ''bb'', ascii ''cc'']"
proof -
  have over: "\<not> calculate_text_width (ascii ''aa bb cc'') 10 \<le> 30"
    by (simp add: calculate_text_width_def ascii_def)
  have ws: "split_ws (ascii ''aa bb cc'') = [ascii ''aa'', ascii ''bb'', ascii ''cc'']"
    by (simp add: split_ws_def ascii_def py_isspace_def)
  have pk: "greedy_pack 30 10 (ascii ''aa'') [ascii ''bb'', ascii ''cc'']
              = [ascii ''aa bb'', ascii ''cc'']"
    by (simp add: calculate_text_width_def ascii_def)
  from wrap_text_greedy_words [of "ascii ''aa bb cc''" 10 30] over
  have a1: "wrap_text (ascii ''aa bb cc'') 30 10 =
      (case split_ws (ascii ''aa bb cc'') of [] \<Rightarrow> [ascii ''aa bb cc'']
       | w # ws \<Rightarrow> greedy_pack 30 10 w ws)"
    and a2: "concat (map split_ws (wrap_text (ascii ''aa bb cc'') 30 10))
               = split_ws (ascii ''aa bb cc'')"
    by blast+
  from a1 have b1: "wrap_text (ascii ''aa bb cc'') 30 10 = [ascii ''aa bb'', ascii ''cc'']"
    by (simp only: ws list.case pk)
  from a2 have b2: "concat (map split_ws (wrap_text (ascii ''aa bb cc'') 30 10))
                      = [ascii ''aa'', ascii ''bb'', ascii ''cc'']"
    by (simp only: ws)
  from over b1 b2 show ?thesis by blast
qed

section \<open>The renderer never raises\<close>

lemma wrap_text_not_Nil: "wrap_text s mw fs \<noteq> []"
  by (simp add: wrap_text_def Let_def)

lemma max_line_width_Inr: "ls \<noteq> [] \<Longrightarrow> \<exists>m. max_line_width ls fs = Inr m"
  by (cases ls) (simp_all add: max_line_width_def)

lemma and_then_Inr:
  "\<exists>x. m = Inr x \<Longrightarrow> (\<And>x. \<exists>y. f x = Inr y) \<Longrightarrow> \<exists>y. and_then m f = Inr y"
  by (auto simp: and_then_def)

lemma for_each_Inr:
  "(\<And>x. \<exists>ys. f x = Inr ys) \<Longrightarrow> \<exists>zs. for_each f xs = Inr zs"
proof (induction xs)
  case Nil
  show ?case by simp
next
  case (Cons x xs)
  from Cons.prems obtain ys where "f x = Inr ys" by blast
  moreover from Cons obtain zs where "for_each f xs = Inr zs" by blast
  ultimately show ?case by (simp add: and_then_def)
qed

lemma render_item_Inr: "\<exists>es. render_item bsx bw y isx ji = Inr es"
  unfolding render_item_def Let_def
  by (rule and_then_Inr) (simp_all add: max_line_width_Inr wrap_text_not_Nil)

lemma render_subtopic_Inr: "\<exists>es. render_subtopic mx tw my bsx sy sp isub = Inr es"
  unfolding render_subtopic_def Let_def
  apply (rule and_then_Inr)
   apply (rule max_line_width_Inr [OF wrap_text_not_Nil])
  apply (rule and_then_Inr)
   apply (rule for_each_Inr [OF render_item_Inr])
  apply simp
  done

lemma render_topic_Inr: "\<exists>es. render_topic h t = Inr es"
  unfolding render_topic_def Let_def
  apply (rule and_then_Inr)
   apply (rule max_line_width_Inr [OF wrap_text_not_Nil])
  apply (rule and_then_Inr)
   apply (simp add: for_each_Inr [OF render_subtopic_Inr])
  apply simp
  done

lemma create_simple_svg_mindmap_Inr: "\<exists>d. create_simple_svg_mindmap structure = Inr d"
  unfolding create_simple_svg_mindmap_def Let_def
  apply (rule and_then_Inr)
   apply (simp add: render_topic_Inr split: list.split)
  apply simp
  done

text \<open>
  C9. For every text, width budget and font size, \<open>wrap_text\<close> returns at least one
  line. Hence the maximum over the line widths that the renderer takes for a box title
  is defined (\<open>max\<close> does not raise), and the renderer returns a document for every
  outline.
\<close>

theorem wrap_text_nonempty:
  "wrap_text s mw fs \<noteq> [] \<and>
   (\<exists>m. max_line_width (wrap_text s mw fs) fs = Inr m) \<and>
   (\<exists>d. create_simple_svg_mindmap structure = Inr d)"
  using wrap_text_not_Nil [of s mw fs] max_line_width_Inr [OF wrap_text_not_Nil, of s mw fs fs]
    create_simple_svg_mindmap_Inr [of "structure"]
  by blast

section \<open>Properties of the tree builder\<close>

lemma cursor_ok_step: "cursor_ok b \<Longrightarrow> cursor_ok (build_step b n)"
  by (auto simp: cursor_ok_def build_step_def split: option.splits if_splits)

lemma cursor_ok_foldl: "cursor_ok b \<Longrightarrow> cursor_ok (foldl build_step b xs)"
  by (induction xs arbitrary: b) (simp_all add: cursor_ok_step)

lemma cursor_ok_build_topics: "cursor_ok (build_topics xs)"
  unfolding build_topics_def by (rule cursor_ok_foldl) (simp add: cursor_ok_def)

lemma build_topics_snoc: "build_topics (xs @ [n]) = build_step (build_topics xs) n"
  by (simp add: build_topics_def)

lemma current_topic_last:
  "main_topics (build_topics xs) = ts @ [t] \<Longrightarrow> current_topic (build_topics xs) = Some (length ts)"
  using cursor_ok_build_topics [of xs] by (simp add: cursor_ok_def)

lemma current_topic_none:
  "main_topics (build_topics xs) = [] \<Longrightarrow> current_topic (build_topics xs) = None"
  using cursor_ok_build_topics [of xs] by (simp add: cursor_ok_def)

lemma item_to_last_subtopic:
  assumes "ntype n = Item" "main_topics (build_topics xs) = ts @ [t]" "subtopics t = ss @ [s]"
  shows "main_topics (build_topics (xs @ [n]))
           = ts @ [t\<lparr>subtopics := ss @ [s\<lparr>items := items s @ [title n]\<rparr>]\<rparr>]"
  using assms current_topic_last [OF assms(2)]
  by (simp add: build_topics_snoc build_step_def append_item_def)

lemma item_to_topic:
  assumes "ntype n = Item" "main_topics (build_topics xs) = ts @ [t]" "subtopics t = []"
  shows "main_topics (build_topics (xs @ [n])) = ts @ [t\<lparr>items := items t @ [title n]\<rparr>]"
  using assms current_topic_last [OF assms(2)]
  by (simp add: build_topics_snoc build_step_def append_item_def)

lemma item_dropped:
  assumes "ntype n = Item" "main_topics (build_topics xs) = []"
  shows "main_topics (build_topics (xs @ [n])) = []"
  using assms current_topic_none [OF assms(2)]
  by (simp add: build_topics_snoc build_step_def)

lemma parse_A_x_B_y:
  "parse_markdown_to_simple_structure (ascii ''# A\<newline>- x\<newline>## B\<newline>- y'') =
     [\<lparr>title = ascii ''A'', level = 1, ntype = Heading\<rparr>,
      \<lparr>title = ascii ''x'', level = 0, ntype = Item\<rparr>,
      \<lparr>title = ascii ''B'', level = 2, ntype = Heading\<rparr>,
      \<lparr>title = ascii ''y'', level = 0, ntype = Item\<rparr>]"
  by (simp add: parse_markdown_to_simple_structure_def parse_line_def strip_def ascii_def
      py_isspace_def lstrip_chars_def startswith_def Let_def)

text \<open>
  C7. The outline parsed from \<open>"# A\n- x\n## B\n- y"\<close> builds one topic \<open>A\<close> whose own
  items are \<open>[x]\<close> and whose single subtopic \<open>B\<close> has the items \<open>[y]\<close>. In general, after
  any outline \<open>xs\<close>, an item node goes to the most recently opened container: to the last
  subtopic of the last topic when that topic has a subtopic, to the topic's own items
  when it has none, and nowhere when there is no topic; nothing else changes.
\<close>

theorem items_attach_to_last_container:
  "main_topics (build_topics
      (parse_markdown_to_simple_structure (ascii ''# A\<newline>- x\<newline>## B\<newline>- y'')))
     = [\<lparr>title = ascii ''A'', items = [ascii ''x''],
         subtopics = [\<lparr>title = ascii ''B'', items = [ascii ''y'']\<rparr>]\<rparr>] \<and>
   (ntype n = Item \<longrightarrow> main_topics (build_topics xs) = ts @ [t] \<longrightarrow> subtopics t = ss @ [s] \<longrightarrow>
      main_topics (build_topics (xs @ [n]))
        = ts @ [t\<lparr>subtopics := ss @ [s\<lparr>items := items s @ [title n]\<rparr>]\<rparr>]) \<and>
   (ntype n = Item \<longrightarrow> main_topics (build_topics xs) = ts @ [t] \<longrightarrow> subtopics t = [] \<longrightarrow>
      main_topics (build_topics (xs @ [n])) = ts @ [t\<lparr>items := items t @ [title n]\<rparr>]) \<and>
   (ntype n = Item \<longrightarrow> main_topics (build_topics xs) = [] \<longrightarrow>
      main_topics (build_topics (xs @ [n])) = [])"
proof (intro conjI impI)
  show "main_topics (build_topics
      (parse_markdown_to_simple_structure (ascii ''# A\<newline>- x\<newline>## B\<newline>- y'')))
     = [\<lparr>title = ascii ''A'', items = [ascii ''x''],
         subtopics = [\<lparr>title = ascii ''B'', items = [ascii ''y'']\<rparr>]\<rparr>]"
    unfolding parse_A_x_B_y by (simp add: build_topics_def build_step_def append_item_def)
qed (simp_all add: item_to_last_subtopic item_to_topic item_dropped)

theorem items_attach_to_last_container_witness:
  "main_topics (build_topics
      [\<lparr>title = ascii ''A'', level = 1, ntype = Heading\<rparr>,
       \<lparr>title = ascii ''B'', level = 2, ntype = Heading\<rparr>,
       \<lparr>title = ascii ''C'', level = 2, ntype = Heading\<rparr>])
     = [] @ [\<lparr>title = ascii ''A'', items = [],
              subtopics = [\<lparr>title = ascii ''B'', items = []\<rparr>] @ [\<lparr>title = ascii ''C'', items = []\<rparr>]\<rparr>] \<and>
   main_topics (build_topics
      ([\<lparr>title = ascii ''A'', level = 1, ntype = Heading\<rparr>,
        \<lparr>title = ascii ''B'', level = 2, ntype = Heading\<rparr>,
        \<lparr>title = ascii ''C'', level = 2, ntype = Heading\<rparr>]
       @ [\<lparr>title = ascii ''y'', level = 0, ntype = Item\<rparr>]))
     = [\<lparr>title = ascii ''A'', items = [],
         subtopics = [\<lparr>title = ascii ''B'', items = []\<rparr>, \<lparr>title = ascii ''C'', items = [ascii ''y'']\<rparr>]\<rparr>]"
proof -
  let ?xs = "[\<lparr>title = ascii ''A'', level = 1, ntype = Heading\<rparr>,
              \<lparr>title = ascii ''B'', level = 2, ntype = Heading\<rparr>,
              \<lparr>title = ascii ''C'', level = 2, ntype = Heading\<rparr>]"
  let ?n = "\<lparr>title = ascii ''y'', level = 0, ntype = Item\<rparr>"
  let ?s = "\<lparr>title = ascii ''C'', items = []\<rparr>"
  let ?ss = "[\<lparr>title = ascii ''B'', items = []\<rparr>]"
  let ?t = "\<lparr>title = ascii ''A'', items = [], subtopics = ?ss @ [?s]\<rparr>"
  have h1: "ntype ?n = Item" by simp
  have h2: "main_topics (build_topics ?xs) = [] @ [?t]"
    by (simp add: build_topics_def build_step_def)
  have h3: "subtopics ?t = ?ss @ [?s]" by simp
  from items_attach_to_last_container [of ?n ?xs "[]" ?t ?ss ?s] h1 h2 h3
  have "main_topics (build_topics (?xs @ [?n]))
          = [] @ [?t\<lparr>subtopics := ?ss @ [?s\<lparr>items := items ?s @ [title ?n]\<rparr>]\<rparr>]"
    by blast
  with h2 show ?thesis by simp
qed

text \<open>
  C10. A heading node of level 3 or more changes nothing in the tree-building loop: the
  list of topics and the current-topic reference after it are what they were before it.
  Hence an outline with such a heading anywhere builds the same tree as the outline
  without it, and later item nodes attach as if it had not occurred.
\<close>

theorem deep_heading_is_noop:
  "(ntype n = Heading \<and> 3 \<le> level n \<longrightarrow> build_step b n = b) \<and>
   (ntype n = Heading \<and> 3 \<le> level n \<longrightarrow> build_topics (xs @ n # ys) = build_topics (xs @ ys))"
  by (simp add: build_step_def build_topics_def)

theorem deep_heading_is_noop_witness:
  "build_step \<lparr>main_topics = [\<lparr>title = ascii ''A'', items = [], subtopics = []\<rparr>],
               current_topic = Some 0\<rparr>
              \<lparr>title = ascii ''deep'', level = 3, ntype = Heading\<rparr>
     = \<lparr>main_topics = [\<lparr>title = ascii ''A'', items = [], subtopics = []\<rparr>], current_topic = Some 0\<rparr> \<and>
   build_topics ([\<lparr>title = ascii ''A'', level = 1, ntype = Heading\<rparr>]
                 @ \<lparr>title = ascii ''deep'', level = 3, ntype = Heading\<rparr>
                 # [\<lparr>title = ascii ''x'', level = 0, ntype = Item\<rparr>])
     = build_topics ([\<lparr>title = ascii ''A'', level = 1, ntype = Heading\<rparr>]
                     @ [\<lparr>title = ascii ''x'', level = 0, ntype = Item\<rparr>])"
proof -
  let ?n = "\<lparr>title = ascii ''deep'', level = 3, ntype = Heading\<rparr>"
  have h: "ntype ?n = Heading \<and> 3 \<le> level ?n" by simp
  from deep_heading_is_noop
         [of ?n "\<lparr>main_topics = [\<lparr>title = ascii ''A'', items = [], subtopics = []\<rparr>],
                  current_topic = Some 0\<rparr>"
             "[\<lparr>title = ascii ''A'', level = 1, ntype = Heading\<rparr>]"
             "[\<lparr>title = ascii ''x'', level = 0, ntype = Item\<rparr>]"] h
  show ?thesis by blast
qed

section \<open>The end-to-end scenario\<close>

lemma parse_scenario:
  "parse_markdown_to_simple_structure
     (ascii ''# Topic\<newline>## Sub1\<newline>- Item1\<newline>- Item2\<newline>## Sub2\<newline>- Item3'') =
     [\<lparr>title = ascii ''Topic'', level = 1, ntype = Heading\<rparr>,
      \<lparr>title = ascii ''Sub1'', level = 2, ntype = Heading\<rparr>,
      \<lparr>title = ascii ''Item1'', level = 0, ntype = Item\<rparr>,
      \<lparr>title = ascii ''Item2'', level = 0, ntype = Item\<rparr>,
      \<lparr>title = ascii ''Sub2'', level = 2, ntype = Heading\<rparr>,
      \<lparr>title = ascii ''Item3'', level = 0, ntype = Item\<rparr>]"
  by (simp add: parse_markdown_to_simple_structure_def parse_line_def strip_def ascii_def
      py_isspace_def lstrip_chars_def startswith_def Let_def)

lemma build_scenario:
  "main_topics (build_topics
     [\<lparr>title = ascii ''Topic'', level = 1, ntype = Heading\<rparr>,
      \<lparr>title = ascii ''Sub1'', level = 2, ntype = Heading\<rparr>,
      \<lparr>title = ascii ''Item1'', level = 0, ntype = Item\<rparr>,
      \<lparr>title = ascii ''Item2'', level = 0, ntype = Item\<rparr>,
      \<lparr>title = ascii ''Sub2'', level = 2, ntype = Heading\<rparr>,
      \<lparr>title = ascii ''Item3'', level = 0, ntype = Item\<rparr>]) =
     [\<lparr>title = ascii ''Topic'', items = [],
       subtopics = [\<lparr>title = ascii ''Sub1'', items = [ascii ''Item1'', ascii ''Item2'']\<rparr>,
                    \<lparr>title = ascii ''Sub2'', items = [ascii ''Item3'']\<rparr>]\<rparr>]"
  by (simp add: build_topics_def build_step_def append_item_def)

lemma render_scenario:
  "render_topic 800
     \<lparr>title = ascii ''Topic'', items = [],
      subtopics = [\<lparr>title = ascii ''Sub1'', items = [ascii ''Item1'', ascii ''Item2'']\<rparr>,
                   \<lparr>title = ascii ''Sub2'', items = [ascii ''Item3'']\<rparr>]\<rparr> =
     Inr [Rect (PyInt 20) (PyInt 375) (PyInt 160) (PyInt 50) MainRect,
          Text (PyInt 100) (PyInt 405) MainTitle (ascii ''Topic''),
          Path (PyInt 180) (PyInt 400) (PyInt 210) (PyInt 400) (PyInt 210) (PyInt 325),
          Line (PyInt 210) (PyInt 325) (PyInt 230) (PyInt 325) False,
          Rect (PyInt 230) (PyInt 308) (PyInt 120) (PyInt 35) BranchRect,
          Text (PyInt 290) (PyInt 329) BranchTitle (ascii ''Sub1''),
          Line (PyInt 350) (PyInt 325) (PyInt 380) (PyInt 265) True,
          Rect (PyInt 380) (PyInt 255) (PyInt 100) (PyInt 20) ItemRect,
          Text (PyInt 390) (PyInt 268) ItemText (ascii ''Item1''),
          Line (PyInt 350) (PyInt 325) (PyInt 380) (PyInt 295) True,
          Rect (PyInt 380) (PyInt 285) (PyInt 100) (PyInt 20) ItemRect,
          Text (PyInt 390) (PyInt 298) ItemText (ascii ''Item2''),
          Path (PyInt 180) (PyInt 400) (PyInt 210) (PyInt 400) (PyInt 210) (PyInt 475),
          Line (PyInt 210) (PyInt 475) (PyInt 230) (PyInt 475) False,
          Rect (PyInt 230) (PyInt 458) (PyInt 120) (PyInt 35) BranchRect,
          Text (PyInt 290) (PyInt 479) BranchTitle (ascii ''Sub2''),
          Line (PyInt 350) (PyInt 475) (PyInt 380) (PyInt 415) True,
          Rect (PyInt 380) (PyInt 405) (PyInt 100) (PyInt 20) ItemRect,
          Text (PyInt 390) (PyInt 418) ItemText (ascii ''Item3'')]"
  by (simp add: render_topic_def render_subtopic_def render_item_def and_then_def Let_def
        wrap_text_def calculate_text_width_def max_line_width_def py_max_def ascii_def
        enumerate_eq_zip)

text \<open>
  C5. For the input \<open>"# Topic\n## Sub1\n- Item1\n- Item2\n## Sub2\n- Item3"\<close> the parser
  yields six nodes; the tree builder yields one topic with the subtopics \<open>Sub1\<close> (two
  items) and \<open>Sub2\<close> (one item); and the renderer draws the root box from (20, 375) with
  width 160 and height 50, that is centred at (100, 400), with its title anchored at
  x = 100, and the two subtopic rows at y = 325 and y = 475, which is 400 - 75 and
  400 + 75 for the spacing min(150, (800 - 200) div 2) = 150: the connectors end at those
  heights and the subtopic boxes of height 35 start 17 above them. Each subtopic's items
  follow it as boxes to its right.
\<close>

theorem end_to_end_scenario:
  "length (parse_markdown_to_simple_structure
     (ascii ''# Topic\<newline>## Sub1\<newline>- Item1\<newline>- Item2\<newline>## Sub2\<newline>- Item3'')) = 6 \<and>
   main_topics (build_topics (parse_markdown_to_simple_structure
     (ascii ''# Topic\<newline>## Sub1\<newline>- Item1\<newline>- Item2\<newline>## Sub2\<newline>- Item3''))) =
     [\<lparr>title = ascii ''Topic'', items = [],
       subtopics = [\<lparr>title = ascii ''Sub1'', items = [ascii ''Item1'', ascii ''Item2'']\<rparr>,
                    \<lparr>title = ascii ''Sub2'', items = [ascii ''Item3'']\<rparr>]\<rparr>] \<and>
   create_simple_svg_mindmap (parse_markdown_to_simple_structure
     (ascii ''# Topic\<newline>## Sub1\<newline>- Item1\<newline>- Item2\<newline>## Sub2\<newline>- Item3'')) =
     Inr \<lparr>svg_width = 1200, svg_height = 800,
          elements =
            [Rect (PyInt 20) (PyInt 375) (PyInt 160) (PyInt 50) MainRect,
             Text (PyInt 100) (PyInt 405) MainTitle (ascii ''Topic''),
             Path (PyInt 180) (PyInt 400) (PyInt 210) (PyInt 400) (PyInt 210) (PyInt 325),
             Line (PyInt 210) (PyInt 325) (PyInt 230) (PyInt 325) False,
             Rect (PyInt 230) (PyInt 308) (PyInt 120) (PyInt 35) BranchRect,
             Text (PyInt 290) (PyInt 329) BranchTitle (ascii ''Sub1''),
             Line (PyInt 350) (PyInt 325) (PyInt 380) (PyInt 265) True,
             Rect (PyInt 380) (PyInt 255) (PyInt 100) (PyInt 20) ItemRect,
             Text (PyInt 390) (PyInt 268) ItemText (ascii ''Item1''),
             Line (PyInt 350) (PyInt 325) (PyInt 380) (PyInt 295) True,
             Rect (PyInt 380) (PyInt 285) (PyInt 100) (PyInt 20) ItemRect,
             Text (PyInt 390) (PyInt 298) ItemText (ascii ''Item2''),
             Path (PyInt 180) (PyInt 400) (PyInt 210) (PyInt 400) (PyInt 210) (PyInt 475),
             Line (PyInt 210) (PyInt 475) (PyInt 230) (PyInt 475) False,
             Rect (PyInt 230) (PyInt 458) (PyInt 120) (PyInt 35) BranchRect,
             Text (PyInt 290) (PyInt 479) BranchTitle (ascii ''Sub2''),
             Line (PyInt 350) (PyInt 475) (PyInt 380) (PyInt 415) True,
             Rect (PyInt 380) (PyInt 405) (PyInt 100) (PyInt 20) ItemRect,
             Text (PyInt 390) (PyInt 418) ItemText (ascii ''Item3'')]\<rparr>"
proof (intro conjI)
  show "length (parse_markdown_to_simple_structure
     (ascii ''# Topic\<newline>## Sub1\<newline>- Item1\<newline>- Item2\<newline>## Sub2\<newline>- Item3'')) = 6"
    unfolding parse_scenario by simp
  show "main_topics (build_topics (parse_markdown_to_simple_structure
     (ascii ''# Topic\<newline>## Sub1\<newline>- Item1\<newline>- Item2\<newline>## Sub2\<newline>- Item3''))) =
     [\<lparr>title = ascii ''Topic'', items = [],
       subtopics = [\<lparr>title = ascii ''Sub1'', items = [ascii ''Item1'', ascii ''Item2'']\<rparr>,
                    \<lparr>title = ascii ''Sub2'', items = [ascii ''Item3'']\<rparr>]\<rparr>]"
    unfolding parse_scenario by (rule build_scenario)
  show "create_simple_svg_mindmap (parse_markdown_to_simple_structure
     (ascii ''# Topic\<newline>## Sub1\<newline>- Item1\<newline>- Item2\<newline>## Sub2\<newline>- Item3'')) =
     Inr \<lparr>svg_width = 1200, svg_height = 800,
          elements =
            [Rect (PyInt 20) (PyInt 375) (PyInt 160) (PyInt 50) MainRect,
             Text (PyInt 100) (PyInt 405) MainTitle (ascii ''Topic''),
             Path (PyInt 180) (PyInt 400) (PyInt 210) (PyInt 400) (PyInt 210) (PyInt 325),
             Line (PyInt 210) (PyInt 325) (PyInt 230) (PyInt 325) False,
             Rect (PyInt 230) (PyInt 308) (PyInt 120) (PyInt 35) BranchRect,
             Text (PyInt 290) (PyInt 329) BranchTitle (ascii ''Sub1''),
             Line (PyInt 350) (PyInt 325) (PyInt 380) (PyInt 265) True,
             Rect (PyInt 380) (PyInt 255) (PyInt 100) (PyInt 20) ItemRect,
             Text (PyInt 390) (PyInt 268) ItemText (ascii ''Item1''),
             Line (PyInt 350) (PyInt 325) (PyInt 380) (PyInt 295) True,
             Rect (PyInt 380) (PyInt 285) (PyInt 100) (PyInt 20) ItemRect,
             Text (PyInt 390) (PyInt 298) ItemText (ascii ''Item2''),
             Path (PyInt 180) (PyInt 400) (PyInt 210) (PyInt 400) (PyInt 210) (PyInt 475),
             Line (PyInt 210) (PyInt 475) (PyInt 230) (PyInt 475) False,
             Rect (PyInt 230) (PyInt 458) (PyInt 120) (PyInt 35) BranchRect,
             Text (PyInt 290) (PyInt 479) BranchTitle (ascii ''Sub2''),
             Line (PyInt 350) (PyInt 475) (PyInt 380) (PyInt 415) True,
             Rect (PyInt 380) (PyInt 405) (PyInt 100) (PyInt 20) ItemRect,
             Text (PyInt 390) (PyInt 418) ItemText (ascii ''Item3'')]\<rparr>"
    unfolding parse_scenario create_simple_svg_mindmap_def build_scenario
    by (simp add: render_scenario and_then_def)
qed

section \<open>Properties of the request orchestrator\<close>

lemma split_on_not_Nil: "split_on d s \<noteq> []"
  by (induction s) (simp_all add: Let_def)

lemma split_on_lines: "list_all (\<lambda>l. d \<notin> set l) (split_on d s)"
proof (induction s)
  case Nil
  show ?case by simp
next
  case (Cons c s)
  then show ?case using split_on_not_Nil [of d s]
    by (cases "split_on d s") (auto simp: Let_def)
qed

lemma split_on_line: "d \<notin> set l \<Longrightarrow> split_on d l = [l]"
  by (induction l) (simp_all add: Let_def)

lemma split_on_append:
  "d \<notin> set l \<Longrightarrow> split_on d (l @ d # s) = l # split_on d s"
  by (induction l) (simp_all add: Let_def)

lemma split_on_join:
  "ls \<noteq> [] \<Longrightarrow> list_all (\<lambda>l. d \<notin> set l) ls \<Longrightarrow> split_on d (join [d] ls) = ls"
proof (induction ls)
  case Nil
  then show ?case by simp
next
  case (Cons l ls)
  show ?case
  proof (cases ls)
    case Nil
    then show ?thesis using Cons.prems by (simp add: split_on_line)
  next
    case (Cons y ys)
    with Cons.IH Cons.prems show ?thesis by (simp add: split_on_append)
  qed
qed

lemma list_all_butlast_tl: "list_all P xs \<Longrightarrow> list_all P (butlast (tl xs))"
  by (induction xs) (auto simp: list_all_iff dest: in_set_butlastD)

lemma clean_lines:
  assumes "startswith (strip t) [96, 96, 96]" "2 < length (split_on 10 (strip t))"
  shows "clean_code_fence t = join [10] (butlast (tl (split_on 10 (strip t))))"
    and "split_on 10 (clean_code_fence t) = butlast (tl (split_on 10 (strip t)))"
proof -
  show c: "clean_code_fence t = join [10] (butlast (tl (split_on 10 (strip t))))"
    using assms by (simp add: clean_code_fence_def Let_def)
  have "butlast (tl (split_on 10 (strip t))) \<noteq> []"
    using assms(2) by (cases "split_on 10 (strip t)") (auto simp: butlast_conv_take)
  moreover have "list_all (\<lambda>l. 10 \<notin> set l) (butlast (tl (split_on 10 (strip t))))"
    by (rule list_all_butlast_tl) (rule split_on_lines)
  ultimately show "split_on 10 (clean_code_fence t) = butlast (tl (split_on 10 (strip t)))"
    unfolding c by (rule split_on_join)
qed

lemma clean_short:
  "length (split_on 10 (strip t)) \<le> 2 \<Longrightarrow> clean_code_fence t = strip t"
  by (simp add: clean_code_fence_def Let_def)

lemma prompt_nonempty: "build_mindmap_prompt w rc = Some p \<Longrightarrow> p \<noteq> []"
  by (auto simp: build_mindmap_prompt_def prompt_intro_def Let_def split: option.splits if_splits)

lemma ai_markdown_ok:
  "resolve_workspace w rc rd = (Inr slug, w') \<Longrightarrow> process_request w prompt slug = Inr t \<Longrightarrow>
   ai_markdown w rc rd prompt = (Inr (clean_code_fence t), w')"
  by (simp add: ai_markdown_def)

lemma ai_markdown_fails:
  "resolve_workspace w rc rd = (Inr slug, w') \<Longrightarrow> process_request w prompt slug = Inl e \<Longrightarrow>
   ai_markdown w rc rd prompt = (Inl e, w')"
  by (simp add: ai_markdown_def)

lemma room_markdown_ok:
  assumes "ROOMS w rc = Some rd" "build_mindmap_prompt w rc = Some prompt"
    "resolve_workspace w rc rd = (Inr slug, w')" "process_request w prompt slug = Inr t"
  shows "room_markdown w rc = (Inr (clean_code_fence t), w')"
  using assms prompt_nonempty [OF assms(2)] ai_markdown_ok [OF assms(3,4)]
  by (simp add: room_markdown_def)

lemma room_markdown_fallback:
  assumes "ROOMS w rc = Some rd" "build_mindmap_prompt w rc = Some prompt"
    "resolve_workspace w rc rd = (Inr slug, w')" "process_request w prompt slug = Inl e"
  shows "room_markdown w rc
           = (Inr (ascii ''# '' @ get_or (room_title rd) [35342, 35542, 32317, 32080]), w')"
  using assms prompt_nonempty [OF assms(2)] ai_markdown_fails [OF assms(3,4)]
  by (simp add: room_markdown_def)

lemma preview_ok:
  assumes "rc \<noteq> []" "ROOMS w rc = Some rd" "build_mindmap_prompt w rc = Some prompt"
    "resolve_workspace w rc rd = (Inr slug, w')" "process_request w prompt slug = Inr t"
  shows "preview_mindmap_markdown w \<lparr>req_room_code = Some rc, req_custom_content = cc\<rparr>
           = (Inr \<lparr>res_room_code = rc, res_room_title = room_title rd,
                   markdown = clean_code_fence t, prompt_used = prompt\<rparr>, w')"
  using assms prompt_nonempty [OF assms(3)] ai_markdown_ok [OF assms(4,5)]
  by (simp add: preview_mindmap_markdown_def preview_body_def get_or_def)

lemma preview_fails:
  assumes "rc \<noteq> []" "ROOMS w rc = Some rd" "build_mindmap_prompt w rc = Some prompt"
    "resolve_workspace w rc rd = (Inr slug, w')" "process_request w prompt slug = Inl e"
  shows "preview_mindmap_markdown w \<lparr>req_room_code = Some rc, req_custom_content = cc\<rparr>
           = (Inl (HTTPException 500 ([38928, 35261, 22833, 25943] @ ascii '': '' @ str_exn e)), w')"
  using assms prompt_nonempty [OF assms(3)] ai_markdown_fails [OF assms(4,5)]
  by (simp add: preview_mindmap_markdown_def preview_body_def get_or_def)

lemma choose_room:
  "rc \<noteq> [] \<Longrightarrow> choose_markdown w (Some \<lparr>req_room_code = Some rc, req_custom_content = cc\<rparr>)
     = room_markdown w rc"
  by (simp add: choose_markdown_def get_or_def)

lemma generate_from_choice:
  "choose_markdown w request = (Inr md, w') \<Longrightarrow>
   generate_mindmap w request
     = (case render_response w' md of Inl e \<Rightarrow> Inl (generate_handler e) | Inr r \<Rightarrow> Inr r, w')"
  by (simp add: generate_mindmap_def and_then_def)

text \<open>
  C6. In both operations the text returned by the AI is trimmed; when the trimmed text
  starts with three backticks and has more than two lines, its first and its last line
  are dropped, whatever the last line is: the result is the remaining lines joined by
  newlines, and splitting it gives back exactly those lines. When the trimmed text has
  two lines or fewer it is kept as it is, fence or not. The preview returns this text as
  its \<open>markdown\<close>, and the generation parses and renders this text.
\<close>

theorem code_fence_removal:
  "(startswith (strip t) [96, 96, 96] \<and> 2 < length (split_on 10 (strip t)) \<longrightarrow>
      clean_code_fence t = join [10] (butlast (tl (split_on 10 (strip t)))) \<and>
      split_on 10 (clean_code_fence t) = butlast (tl (split_on 10 (strip t)))) \<and>
   (length (split_on 10 (strip t)) \<le> 2 \<longrightarrow> clean_code_fence t = strip t) \<and>
   (rc \<noteq> [] \<and> ROOMS w rc = Some rd \<and> build_mindmap_prompt w rc = Some prompt \<and>
    resolve_workspace w rc rd = (Inr slug, w') \<and> process_request w prompt slug = Inr t \<longrightarrow>
      preview_mindmap_markdown w \<lparr>req_room_code = Some rc, req_custom_content = cc\<rparr>
        = (Inr \<lparr>res_room_code = rc, res_room_title = room_title rd,
                markdown = clean_code_fence t, prompt_used = prompt\<rparr>, w') \<and>
      generate_mindmap w (Some \<lparr>req_room_code = Some rc, req_custom_content = cc\<rparr>)
        = (case render_response w' (clean_code_fence t) of
             Inl e \<Rightarrow> Inl (generate_handler e) | Inr r \<Rightarrow> Inr r, w'))"
proof (intro conjI impI)
  assume "startswith (strip t) [96, 96, 96] \<and> 2 < length (split_on 10 (strip t))"
  then show "clean_code_fence t = join [10] (butlast (tl (split_on 10 (strip t))))"
    and "split_on 10 (clean_code_fence t) = butlast (tl (split_on 10 (strip t)))"
    using clean_lines [of t] by blast+
next
  assume "length (split_on 10 (strip t)) \<le> 2"
  then show "clean_code_fence t = strip t" by (rule clean_short)
next
  assume a: "rc \<noteq> [] \<and> ROOMS w rc = Some rd \<and> build_mindmap_prompt w rc = Some prompt \<and>
    resolve_workspace w rc rd = (Inr slug, w') \<and> process_request w prompt slug = Inr t"
  then show "preview_mindmap_markdown w \<lparr>req_room_code = Some rc, req_custom_content = cc\<rparr>
        = (Inr \<lparr>res_room_code = rc, res_room_title = room_title rd,
                markdown = clean_code_fence t, prompt_used = prompt\<rparr>, w')"
    using preview_ok [of rc w rd prompt slug w' t cc] by blast
  from a have "choose_markdown w (Some \<lparr>req_room_code = Some rc, req_custom_content = cc\<rparr>)
                 = (Inr (clean_code_fence t), w')"
    using room_markdown_ok [of w rc rd prompt slug w' t] by (simp add: choose_room)
  then show "generate_mindmap w (Some \<lparr>req_room_code = Some rc, req_custom_content = cc\<rparr>)
        = (case render_response w' (clean_code_fence t) of
             Inl e \<Rightarrow> Inl (generate_handler e) | Inr r \<Rightarrow> Inr r, w')"
    by (rule generate_from_choice)
qed

lemma answering_strip:
  "strip ([96, 96, 96] @ ascii ''markdown\<newline># A\<newline>- x\<newline>'' @ [96, 96, 96, 10])
     = [96, 96, 96] @ ascii ''markdown\<newline># A\<newline>- x\<newline>'' @ [96, 96, 96]"
  by (simp add: strip_def ascii_def py_isspace_def)

lemma answering_lines:
  "split_on 10 ([96, 96, 96] @ ascii ''markdown\<newline># A\<newline>- x\<newline>'' @ [96, 96, 96])
     = [[96, 96, 96] @ ascii ''markdown'', ascii ''# A'', ascii ''- x'', [96, 96, 96]]"
  by (simp add: ascii_def Let_def)

lemma one_room_prompt:
  "build_mindmap_prompt one_room_world (ascii ''R1'')
     = Some (prompt_intro @ [30446, 21069, 35342, 35542, 23460, 36996, 27794, 26377, 20219,
                             20309, 20027, 38988, 12290, 10])"
  by (simp add: build_mindmap_prompt_def one_room_world_def no_rooms_world_def)

lemma answering_prompt:
  "build_mindmap_prompt answering_world (ascii ''R1'')
     = Some (prompt_intro @ [30446, 21069, 35342, 35542, 23460, 36996, 27794, 26377, 20219,
                             20309, 20027, 38988, 12290, 10])"
  by (simp add: build_mindmap_prompt_def answering_world_def one_room_world_def no_rooms_world_def)

theorem code_fence_removal_witness:
  "clean_code_fence ([96, 96, 96] @ ascii ''markdown\<newline># A\<newline>- x\<newline>'' @ [96, 96, 96, 10])
     = ascii ''# A\<newline>- x'' \<and>
   clean_code_fence ([96, 96, 96] @ ascii ''# A'') = [96, 96, 96] @ ascii ''# A'' \<and>
   clean_code_fence ([96, 96, 96] @ ascii ''\<newline># A\<newline>- x'') = ascii ''# A'' \<and>
   fst (preview_mindmap_markdown answering_world
          \<lparr>req_room_code = Some (ascii ''R1''), req_custom_content = None\<rparr>)
     = Inr \<lparr>res_room_code = ascii ''R1'', res_room_title = Some (ascii ''Plan''),
            markdown = ascii ''# A\<newline>- x'',
            prompt_used = prompt_intro @ [30446, 21069, 35342, 35542, 23460, 36996, 27794, 26377,
                                          20219, 20309, 20027, 38988, 12290, 10]\<rparr>"
proof -
  let ?t = "[96, 96, 96] @ ascii ''markdown\<newline># A\<newline>- x\<newline>'' @ [96, 96, 96, 10]"
  let ?u = "[96, 96, 96] @ ascii ''# A''"
  let ?v = "[96, 96, 96] @ ascii ''\<newline># A\<newline>- x''"
  let ?p = "prompt_intro @ [30446, 21069, 35342, 35542, 23460, 36996, 27794, 26377,
                            20219, 20309, 20027, 38988, 12290, 10]"
  have h1: "startswith (strip ?t) [96, 96, 96] \<and> 2 < length (split_on 10 (strip ?t))"
    unfolding answering_strip answering_lines by (simp add: startswith_def)
  have h2: "length (split_on 10 (strip ?u)) \<le> 2"
    by (simp add: strip_def ascii_def py_isspace_def Let_def)
  have h4: "startswith (strip ?v) [96, 96, 96] \<and> 2 < length (split_on 10 (strip ?v))"
    by (simp add: strip_def ascii_def py_isspace_def startswith_def Let_def)
  have e4: "join [10] (butlast (tl (split_on 10 (strip ?v)))) = ascii ''# A''"
    by (simp add: strip_def ascii_def py_isspace_def Let_def)
  from code_fence_removal [of ?v] h4
  have c4: "clean_code_fence ?v = join [10] (butlast (tl (split_on 10 (strip ?v))))" by blast
  have h3: "ascii ''R1'' \<noteq> [] \<and> ROOMS answering_world (ascii ''R1'') = Some plan_room \<and>
      build_mindmap_prompt answering_world (ascii ''R1'') = Some ?p \<and>
      resolve_workspace answering_world (ascii ''R1'') plan_room = (Inr (ascii ''ws1''), answering_world) \<and>
      process_request answering_world ?p (ascii ''ws1'') = Inr ?t"
    unfolding answering_prompt
    by (simp add: answering_world_def one_room_world_def no_rooms_world_def plan_room_def
          resolve_workspace_def ascii_def)
  have e1: "join [10] (butlast (tl (split_on 10 (strip ?t)))) = ascii ''# A\<newline>- x''"
    unfolding answering_strip answering_lines by (simp add: ascii_def)
  have e2: "strip ?u = ?u" by (simp add: strip_def ascii_def py_isspace_def)
  from code_fence_removal [of ?t] h1
  have c1: "clean_code_fence ?t = join [10] (butlast (tl (split_on 10 (strip ?t))))" by blast
  from code_fence_removal [of ?u] h2
  have c2: "clean_code_fence ?u = strip ?u" by blast
  from code_fence_removal [of ?t "ascii ''R1''" answering_world plan_room ?p "ascii ''ws1''" answering_world None] h3
  have c3: "preview_mindmap_markdown answering_world
              \<lparr>req_room_code = Some (ascii ''R1''), req_custom_content = None\<rparr>
        = (Inr \<lparr>res_room_code = ascii ''R1'', res_room_title = room_title plan_room,
                markdown = clean_code_fence ?t, prompt_used = ?p\<rparr>, answering_world)"
    by blast
  have t: "room_title plan_room = Some (ascii ''Plan'')" by (simp add: plan_room_def)
  show ?thesis unfolding c3 c1 c2 c4 e1 e2 e4 t by simp
qed

text \<open>
  C3 (the code differs). For a room code that is not in the store, \<open>generate_mindmap\<close>
  answers with status 404. \<open>preview_mindmap_markdown\<close> raises the same 404 inside its
  \<open>try\<close>, but its only handler, \<open>except Exception\<close>, catches it and answers with status
  500, the 404 being left in the detail text.
\<close>

theorem preview_not_found_gives_500:
  "fst (preview_mindmap_markdown no_rooms_world
          \<lparr>req_room_code = Some (ascii ''nope''), req_custom_content = None\<rparr>)
     = Inl (HTTPException 500
              ([38928, 35261, 22833, 25943] @ ascii '': 404: ''
               @ [25214, 19981, 21040, 35342, 35542, 23460] @ ascii '': nope'')) \<and>
   fst (generate_mindmap no_rooms_world
          (Some \<lparr>req_room_code = Some (ascii ''nope''), req_custom_content = None\<rparr>))
     = Inl (HTTPException 404
              ([25214, 19981, 21040, 35342, 35542, 23460] @ ascii '': nope''))"
  by (simp add: preview_mindmap_markdown_def preview_body_def generate_mindmap_def
        choose_markdown_def room_markdown_def generate_handler_def and_then_def
        no_rooms_world_def get_or_def ascii_def show_nat.simps)

section \<open>Fallback document and empty outlines\<close>

lemma dropWhile_snoc_keep:
  "\<not> P c \<Longrightarrow> \<exists>k. dropWhile P (ys @ [c]) = drop k ys @ [c]"
proof (induction ys)
  case Nil
  then show ?case by simp
next
  case (Cons y ys)
  then obtain k where k: "dropWhile P (ys @ [c]) = drop k ys @ [c]" by blast
  show ?case
  proof (cases "P y")
    case True
    with k have "dropWhile P ((y # ys) @ [c]) = drop (Suc k) (y # ys) @ [c]" by simp
    then show ?thesis by blast
  next
    case False
    then have "dropWhile P ((y # ys) @ [c]) = drop 0 (y # ys) @ [c]" by simp
    then show ?thesis by blast
  qed
qed

lemma strip_keeps_head: "\<not> py_isspace c \<Longrightarrow> \<exists>k. strip (c # s) = c # take k s"
proof -
  assume c: "\<not> py_isspace c"
  then obtain k where "dropWhile py_isspace (rev s @ [c]) = drop k (rev s) @ [c]"
    using dropWhile_snoc_keep [of py_isspace c "rev s"] by blast
  with c have "strip (c # s) = c # take (length s - k) s"
    by (simp add: strip_def rev_drop)
  then show ?thesis by blast
qed

lemma hd_split_on: "hd (split_on d s) = takeWhile (\<lambda>x. x \<noteq> d) s"
  by (induction s) (simp_all add: Let_def)

lemma split_on_head:
  "c \<noteq> d \<Longrightarrow> split_on d (c # s) = (c # takeWhile (\<lambda>x. x \<noteq> d) s) # tl (split_on d s)"
  by (simp add: Let_def hd_split_on)

lemma level_of_hash:
  "q = [] \<or> (\<exists>q'. q = 32 # q') \<Longrightarrow>
   length (35 # q) - length (lstrip_chars [35] (35 # q)) = 1"
  by (auto simp: lstrip_chars_def)

lemma parse_line_hash:
  assumes "r = [] \<or> (\<exists>r'. r = 32 # r')"
  shows "\<exists>ttl. parse_line (35 # r) = [\<lparr>title = ttl, level = 1, ntype = Heading\<rparr>]"
proof -
  have ns: "\<not> py_isspace 35" by (simp add: py_isspace_def)
  then obtain k where k: "strip (35 # r) = 35 # take k r"
    using strip_keeps_head [of 35 r] by blast
  from assms have "take k r = [] \<or> (\<exists>q. take k r = 32 # q)" by (cases k) auto
  then have "length (35 # take k r) - length (lstrip_chars [35] (35 # take k r)) = 1"
    by (rule level_of_hash)
  then show ?thesis unfolding parse_line_def k by (simp add: startswith_def Let_def)
qed

lemma fallback_first_node:
  "\<exists>ttl rest. parse_markdown_to_simple_structure (ascii ''# '' @ t)
     = \<lparr>title = ttl, level = 1, ntype = Heading\<rparr> # rest"
proof -
  have ns: "\<not> py_isspace 35" by (simp add: py_isspace_def)
  then obtain k where k: "strip (35 # 32 # t) = 35 # take k (32 # t)"
    using strip_keeps_head [of 35 "32 # t"] by blast
  let ?r = "takeWhile (\<lambda>x. x \<noteq> 10) (take k (32 # t))"
  have s: "split_on 10 (35 # take k (32 # t)) = (35 # ?r) # tl (split_on 10 (take k (32 # t)))"
    by (rule split_on_head) simp
  have "?r = [] \<or> (\<exists>r'. ?r = 32 # r')" by (cases k) auto
  then obtain ttl where l: "parse_line (35 # ?r) = [\<lparr>title = ttl, level = 1, ntype = Heading\<rparr>]"
    using parse_line_hash by blast
  have "ascii ''# '' @ t = 35 # 32 # t" by (simp add: ascii_def)
  then have "parse_markdown_to_simple_structure (ascii ''# '' @ t)
               = concat (map parse_line (split_on 10 (35 # take k (32 # t))))"
    unfolding parse_markdown_to_simple_structure_def by (simp only: k)
  also have "\<dots> = \<lparr>title = ttl, level = 1, ntype = Heading\<rparr>
                    # concat (map parse_line (tl (split_on 10 (take k (32 # t)))))"
    unfolding s by (simp add: l)
  finally show ?thesis by blast
qed

lemma length_main_topics_step:
  "length (main_topics (build_step b n))
     = length (main_topics b) + (if ntype n = Heading \<and> level n = 1 then 1 else 0)"
  by (simp add: build_step_def split: option.splits)

lemma length_main_topics_foldl:
  "length (main_topics (foldl build_step b xs))
     = length (main_topics b) + length (filter (\<lambda>n. ntype n = Heading \<and> level n = 1) xs)"
  by (induction xs arbitrary: b) (simp_all add: length_main_topics_step)

lemma length_main_topics:
  "length (main_topics (build_topics xs))
     = length (filter (\<lambda>n. ntype n = Heading \<and> level n = 1) xs)"
  by (simp add: build_topics_def length_main_topics_foldl)

lemma fallback_has_topic:
  "main_topics (build_topics (parse_markdown_to_simple_structure (ascii ''# '' @ t))) \<noteq> []"
proof -
  obtain ttl rest where "parse_markdown_to_simple_structure (ascii ''# '' @ t)
     = \<lparr>title = ttl, level = 1, ntype = Heading\<rparr> # rest"
    using fallback_first_node by blast
  then have "length (main_topics (build_topics (parse_markdown_to_simple_structure (ascii ''# '' @ t)))) > 0"
    by (simp add: length_main_topics)
  then show ?thesis by simp
qed

lemma render_default_topic:
  "render_topic 800 default_topic =
     Inr [Rect (PyInt 20) (PyInt 375) (PyInt 160) (PyInt 50) MainRect,
          Text (PyInt 100) (PyInt 405) MainTitle [20154, 24037, 26234, 24935, 30340, 26410, 20358],
          Path (PyInt 180) (PyInt 400) (PyInt 210) (PyInt 400) (PyInt 210) (PyInt 325),
          Line (PyInt 210) (PyInt 325) (PyInt 230) (PyInt 325) False,
          Rect (PyInt 230) (PyInt 308) (PyInt 120) (PyInt 35) BranchRect,
          Text (PyInt 290) (PyInt 329) BranchTitle [25216, 34899, 30332, 23637],
          Line (PyInt 350) (PyInt 325) (PyInt 380) (PyInt 265) True,
          Rect (PyInt 380) (PyInt 255) (PyInt 100) (PyInt 20) ItemRect,
          Text (PyInt 390) (PyInt 268) ItemText [27231, 22120, 23416, 32722, 36914, 27493],
          Line (PyInt 350) (PyInt 325) (PyInt 380) (PyInt 295) True,
          Rect (PyInt 380) (PyInt 285) (PyInt 100) (PyInt 20) ItemRect,
          Text (PyInt 390) (PyInt 298) ItemText [28145, 24230, 23416, 32722, 31361, 30772],
          Line (PyInt 350) (PyInt 325) (PyInt 380) (PyInt 325) True,
          Rect (PyInt 380) (PyInt 315) (PyInt 100) (PyInt 20) ItemRect,
          Text (PyInt 390) (PyInt 328) ItemText [33258, 28982, 35486, 35328, 34389, 29702],
          Path (PyInt 180) (PyInt 400) (PyInt 210) (PyInt 400) (PyInt 210) (PyInt 475),
          Line (PyInt 210) (PyInt 475) (PyInt 230) (PyInt 475) False,
          Rect (PyInt 230) (PyInt 458) (PyInt 120) (PyInt 35) BranchRect,
          Text (PyInt 290) (PyInt 479) BranchTitle [25033, 29992, 38936, 22495],
          Line (PyInt 350) (PyInt 475) (PyInt 380) (PyInt 415) True,
          Rect (PyInt 380) (PyInt 405) (PyInt 100) (PyInt 20) ItemRect,
          Text (PyInt 390) (PyInt 418) ItemText [37291, 30274, 35386, 26039],
          Line (PyInt 350) (PyInt 475) (PyInt 380) (PyInt 445) True,
          Rect (PyInt 380) (PyInt 435) (PyInt 100) (PyInt 20) ItemRect,
          Text (PyInt 390) (PyInt 448) ItemText [26234, 33021, 20132, 36890],
          Line (PyInt 350) (PyInt 475) (PyInt 380) (PyInt 475) True,
          Rect (PyInt 380) (PyInt 465) (PyInt 100) (PyInt 20) ItemRect,
          Text (PyInt 390) (PyInt 478) ItemText [37329, 34701, 31185, 25216]]"
  by (simp add: default_topic_def render_topic_def render_subtopic_def render_item_def
        and_then_def Let_def wrap_text_def calculate_text_width_def max_line_width_def
        py_max_def enumerate_eq_zip)

lemma render_response_empty:
  "parse_markdown_to_simple_structure md = [] \<Longrightarrow>
   render_response w md
     = Inl (HTTPException 400 ([28961, 27861, 35299, 26512] @ ascii ''markdown'' @ [20839, 23481]))"
  by (simp add: render_response_def)

lemma render_response_ok:
  "parse_markdown_to_simple_structure md \<noteq> [] \<Longrightarrow>
   create_simple_svg_mindmap (parse_markdown_to_simple_structure md) = Inr d \<Longrightarrow>
   named_temporary_file w d = Inr name \<Longrightarrow>
   render_response w md
     = Inr \<lparr>path = name, media_type = ascii ''image/svg+xml'',
            filename = ascii ''mindmap_'' @ strftime (now w) @ ascii ''.svg'', document = d\<rparr>"
  by (simp add: render_response_def and_then_def)

lemma create_default:
  "main_topics (build_topics structure) = [] \<Longrightarrow>
   create_simple_svg_mindmap structure
     = and_then (render_topic 800 default_topic)
         (\<lambda>drawn. Inr \<lparr>svg_width = 1200, svg_height = 800, elements = drawn\<rparr>)"
  by (simp add: create_simple_svg_mindmap_def)

section \<open>Failure of the AI call\<close>

text \<open>
  C1. Take a request with a room code of a room in the store whose workspace is known
  or has just been created, and let the AI completion call raise any exception \<open>e\<close>.
  In \<open>generate_mindmap\<close> the exception is caught: the Markdown becomes the one line \<open># \<close>
  followed by the room's title (by a default title when the room has none), that line
  parses to an outline with a topic of its own, which the renderer draws, and, the
  temporary file being written, the answer is the file response with that drawing.
  In \<open>preview_mindmap_markdown\<close> the same exception is answered with status 500 and
  no Markdown is put in its place.
\<close>

theorem ai_failure_recovered_in_generate_surfaced_in_preview:
  "rc \<noteq> [] \<and> ROOMS w rc = Some rd \<and> build_mindmap_prompt w rc = Some prompt \<and>
   resolve_workspace w rc rd = (Inr slug, w') \<and> process_request w prompt slug = Inl e \<longrightarrow>
     choose_markdown w (Some \<lparr>req_room_code = Some rc, req_custom_content = cc\<rparr>)
       = (Inr (ascii ''# '' @ get_or (room_title rd) [35342, 35542, 32317, 32080]), w') \<and>
     main_topics (build_topics (parse_markdown_to_simple_structure
        (ascii ''# '' @ get_or (room_title rd) [35342, 35542, 32317, 32080]))) \<noteq> [] \<and>
     (\<exists>d. create_simple_svg_mindmap (parse_markdown_to_simple_structure
               (ascii ''# '' @ get_or (room_title rd) [35342, 35542, 32317, 32080])) = Inr d \<and>
          (named_temporary_file w' d = Inr name \<longrightarrow>
             generate_mindmap w (Some \<lparr>req_room_code = Some rc, req_custom_content = cc\<rparr>)
               = (Inr \<lparr>path = name, media_type = ascii ''image/svg+xml'',
                       filename = ascii ''mindmap_'' @ strftime (now w') @ ascii ''.svg'',
                       document = d\<rparr>, w'))) \<and>
     preview_mindmap_markdown w \<lparr>req_room_code = Some rc, req_custom_content = cc\<rparr>
       = (Inl (HTTPException 500 ([38928, 35261, 22833, 25943] @ ascii '': '' @ str_exn e)), w')"
proof (intro impI)
  let ?md = "ascii ''# '' @ get_or (room_title rd) [35342, 35542, 32317, 32080]"
  let ?req = "\<lparr>req_room_code = Some rc, req_custom_content = cc\<rparr>"
  assume a: "rc \<noteq> [] \<and> ROOMS w rc = Some rd \<and> build_mindmap_prompt w rc = Some prompt \<and>
   resolve_workspace w rc rd = (Inr slug, w') \<and> process_request w prompt slug = Inl e"
  then have ch: "choose_markdown w (Some ?req) = (Inr ?md, w')"
    using room_markdown_fallback [of w rc rd prompt slug w' e] by (simp add: choose_room)
  obtain d where d: "create_simple_svg_mindmap (parse_markdown_to_simple_structure ?md) = Inr d"
    using create_simple_svg_mindmap_Inr by blast
  have ne: "parse_markdown_to_simple_structure ?md \<noteq> []"
    using fallback_first_node [of "get_or (room_title rd) [35342, 35542, 32317, 32080]"] by auto
  have g: "named_temporary_file w' d = Inr name \<longrightarrow>
             generate_mindmap w (Some ?req)
               = (Inr \<lparr>path = name, media_type = ascii ''image/svg+xml'',
                       filename = ascii ''mindmap_'' @ strftime (now w') @ ascii ''.svg'',
                       document = d\<rparr>, w')"
    using generate_from_choice [OF ch] render_response_ok [OF ne d] by simp
  have p: "preview_mindmap_markdown w ?req
       = (Inl (HTTPException 500 ([38928, 35261, 22833, 25943] @ ascii '': '' @ str_exn e)), w')"
    using a preview_fails [of rc w rd prompt slug w' e cc] by blast
  have tp: "main_topics (build_topics (parse_markdown_to_simple_structure ?md)) \<noteq> []"
    by (rule fallback_has_topic)
  from ch tp d g p show "choose_markdown w (Some ?req) = (Inr ?md, w') \<and>
     main_topics (build_topics (parse_markdown_to_simple_structure ?md)) \<noteq> [] \<and>
     (\<exists>d. create_simple_svg_mindmap (parse_markdown_to_simple_structure ?md) = Inr d \<and>
          (named_temporary_file w' d = Inr name \<longrightarrow>
             generate_mindmap w (Some ?req)
               = (Inr \<lparr>path = name, media_type = ascii ''image/svg+xml'',
                       filename = ascii ''mindmap_'' @ strftime (now w') @ ascii ''.svg'',
                       document = d\<rparr>, w'))) \<and>
     preview_mindmap_markdown w ?req
       = (Inl (HTTPException 500 ([38928, 35261, 22833, 25943] @ ascii '': '' @ str_exn e)), w')"
    by blast
qed

lemma create_Plan:
  "create_simple_svg_mindmap (parse_markdown_to_simple_structure (ascii ''# Plan''))
     = Inr \<lparr>svg_width = 1200, svg_height = 800,
            elements = [Rect (PyInt 20) (PyInt 375) (PyInt 160) (PyInt 50) MainRect,
                        Text (PyInt 100) (PyInt 405) MainTitle (ascii ''Plan'')]\<rparr>"
proof -
  have p: "parse_markdown_to_simple_structure (ascii ''# Plan'')
             = [\<lparr>title = ascii ''Plan'', level = 1, ntype = Heading\<rparr>]"
    by (simp add: parse_markdown_to_simple_structure_def parse_line_def strip_def ascii_def
        py_isspace_def lstrip_chars_def startswith_def Let_def)
  have b: "main_topics (build_topics [\<lparr>title = ascii ''Plan'', level = 1, ntype = Heading\<rparr>])
             = [\<lparr>title = ascii ''Plan'', items = [], subtopics = []\<rparr>]"
    by (simp add: build_topics_def build_step_def)
  have r: "render_topic 800 \<lparr>title = ascii ''Plan'', items = [], subtopics = []\<rparr>
             = Inr [Rect (PyInt 20) (PyInt 375) (PyInt 160) (PyInt 50) MainRect,
                    Text (PyInt 100) (PyInt 405) MainTitle (ascii ''Plan'')]"
    by (simp add: render_topic_def and_then_def Let_def wrap_text_def calculate_text_width_def
          max_line_width_def py_max_def ascii_def enumerate_eq_zip)
  show ?thesis unfolding p create_simple_svg_mindmap_def b by (simp add: r and_then_def)
qed

lemma strftime_example:
  "strftime \<lparr>year = 2025, month = 3, day = 9, hour = 14, minute = 5, second = 0\<rparr>
     = ascii ''20250309_140500''"
  by (simp add: strftime_def pad2_def show_nat.simps ascii_def)

theorem ai_failure_recovered_in_generate_surfaced_in_preview_witness:
  "process_request one_room_world
     (prompt_intro @ [30446, 21069, 35342, 35542, 23460, 36996, 27794, 26377, 20219,
                      20309, 20027, 38988, 12290, 10]) (ascii ''ws1'')
     = Inl (Exception (ascii ''connection refused'')) \<and>
   generate_mindmap one_room_world
       (Some \<lparr>req_room_code = Some (ascii ''R1''), req_custom_content = None\<rparr>)
     = (Inr \<lparr>path = ascii ''/tmp/tmpmap.svg'', media_type = ascii ''image/svg+xml'',
             filename = ascii ''mindmap_20250309_140500.svg'',
             document =
               \<lparr>svg_width = 1200, svg_height = 800,
                elements = [Rect (PyInt 20) (PyInt 375) (PyInt 160) (PyInt 50) MainRect,
                            Text (PyInt 100) (PyInt 405) MainTitle (ascii ''Plan'')]\<rparr>\<rparr>,
        one_room_world) \<and>
   preview_mindmap_markdown one_room_world
       \<lparr>req_room_code = Some (ascii ''R1''), req_custom_content = None\<rparr>
     = (Inl (HTTPException 500
               ([38928, 35261, 22833, 25943] @ ascii '': connection refused'')),
        one_room_world)"
proof -
  let ?p = "prompt_intro @ [30446, 21069, 35342, 35542, 23460, 36996, 27794, 26377, 20219,
                            20309, 20027, 38988, 12290, 10]"
  let ?req = "\<lparr>req_room_code = Some (ascii ''R1''), req_custom_content = None\<rparr>"
  let ?doc = "\<lparr>svg_width = 1200, svg_height = 800,
                elements = [Rect (PyInt 20) (PyInt 375) (PyInt 160) (PyInt 50) MainRect,
                            Text (PyInt 100) (PyInt 405) MainTitle (ascii ''Plan'')]\<rparr>"
  have f: "process_request one_room_world ?p (ascii ''ws1'')
             = Inl (Exception (ascii ''connection refused''))"
    by (simp add: one_room_world_def no_rooms_world_def)
  have h: "ascii ''R1'' \<noteq> [] \<and> ROOMS one_room_world (ascii ''R1'') = Some plan_room \<and>
      build_mindmap_prompt one_room_world (ascii ''R1'') = Some ?p \<and>
      resolve_workspace one_room_world (ascii ''R1'') plan_room
        = (Inr (ascii ''ws1''), one_room_world) \<and>
      process_request one_room_world ?p (ascii ''ws1'')
        = Inl (Exception (ascii ''connection refused''))"
    unfolding one_room_prompt f
    by (simp add: one_room_world_def no_rooms_world_def plan_room_def resolve_workspace_def
          ascii_def)
  have md: "ascii ''# '' @ get_or (room_title plan_room) [35342, 35542, 32317, 32080]
              = ascii ''# Plan''"
    by (simp add: plan_room_def get_or_def ascii_def)
  have tmp: "named_temporary_file one_room_world ?doc = Inr (ascii ''/tmp/tmpmap.svg'')"
    by (simp add: one_room_world_def no_rooms_world_def)
  have nw: "now one_room_world
              = \<lparr>year = 2025, month = 3, day = 9, hour = 14, minute = 5, second = 0\<rparr>"
    by (simp add: one_room_world_def no_rooms_world_def)
  have fn: "ascii ''mindmap_'' @ strftime (now one_room_world) @ ascii ''.svg''
              = ascii ''mindmap_20250309_140500.svg''"
    unfolding nw strftime_example by (simp add: ascii_def)
  from ai_failure_recovered_in_generate_surfaced_in_preview
         [of "ascii ''R1''" one_room_world plan_room ?p "ascii ''ws1''" one_room_world
             "Exception (ascii ''connection refused'')" None "ascii ''/tmp/tmpmap.svg''"] h
  have g: "\<exists>d. create_simple_svg_mindmap (parse_markdown_to_simple_structure
               (ascii ''# '' @ get_or (room_title plan_room) [35342, 35542, 32317, 32080])) = Inr d \<and>
          (named_temporary_file one_room_world d = Inr (ascii ''/tmp/tmpmap.svg'') \<longrightarrow>
             generate_mindmap one_room_world (Some ?req)
               = (Inr \<lparr>path = ascii ''/tmp/tmpmap.svg'', media_type = ascii ''image/svg+xml'',
                       filename = ascii ''mindmap_'' @ strftime (now one_room_world) @ ascii ''.svg'',
                       document = d\<rparr>, one_room_world))"
    and p: "preview_mindmap_markdown one_room_world ?req
       = (Inl (HTTPException 500 ([38928, 35261, 22833, 25943] @ ascii '': ''
                 @ str_exn (Exception (ascii ''connection refused'')))), one_room_world)"
    by blast+
  from g obtain d where
    d: "create_simple_svg_mindmap (parse_markdown_to_simple_structure (ascii ''# Plan'')) = Inr d"
    and gd: "named_temporary_file one_room_world d = Inr (ascii ''/tmp/tmpmap.svg'') \<longrightarrow>
             generate_mindmap one_room_world (Some ?req)
               = (Inr \<lparr>path = ascii ''/tmp/tmpmap.svg'', media_type = ascii ''image/svg+xml'',
                       filename = ascii ''mindmap_20250309_140500.svg'',
                       document = d\<rparr>, one_room_world)"
    unfolding md fn by blast
  from d have dd: "d = ?doc" unfolding create_Plan by simp
  from gd tmp have g': "generate_mindmap one_room_world (Some ?req)
               = (Inr \<lparr>path = ascii ''/tmp/tmpmap.svg'', media_type = ascii ''image/svg+xml'',
                       filename = ascii ''mindmap_20250309_140500.svg'',
                       document = ?doc\<rparr>, one_room_world)"
    unfolding dd by blast
  from p have p': "preview_mindmap_markdown one_room_world ?req
       = (Inl (HTTPException 500 ([38928, 35261, 22833, 25943] @ ascii '': connection refused'')),
          one_room_world)"
    by (simp add: ascii_def)
  from f g' p' show ?thesis by blast
qed

section \<open>The two empty states\<close>

text \<open>
  C2. The two empty states are handled differently. When the chosen Markdown parses to
  an empty outline, \<open>generate_mindmap\<close> answers with status 400 and no file. When the
  outline is not empty but the tree builder finds no topic, which is when no node is a
  heading of level 1, the renderer draws the canned topic instead (its title and the
  titles of its two subtopics are the literals of the source), and \<open>generate_mindmap\<close>
  answers with that drawing.
\<close>

theorem two_empty_states:
  "(choose_markdown w request = (Inr md, w') \<and> parse_markdown_to_simple_structure md = [] \<longrightarrow>
      generate_mindmap w request
        = (Inl (HTTPException 400
                  ([28961, 27861, 35299, 26512] @ ascii ''markdown'' @ [20839, 23481])), w')) \<and>
   length (main_topics (build_topics structure))
     = length (filter (\<lambda>n. ntype n = Heading \<and> level n = 1) structure) \<and>
   title default_topic = [20154, 24037, 26234, 24935, 30340, 26410, 20358] \<and>
   map title (subtopics default_topic) = [[25216, 34899, 30332, 23637], [25033, 29992, 38936, 22495]] \<and>
   (structure \<noteq> [] \<and> main_topics (build_topics structure) = [] \<longrightarrow>
      (\<exists>drawn. render_topic 800 default_topic = Inr drawn \<and>
         create_simple_svg_mindmap structure
           = Inr \<lparr>svg_width = 1200, svg_height = 800, elements = drawn\<rparr>)) \<and>
   (choose_markdown w request = (Inr md, w') \<and>
    parse_markdown_to_simple_structure md \<noteq> [] \<and>
    main_topics (build_topics (parse_markdown_to_simple_structure md)) = [] \<and>
    render_topic 800 default_topic = Inr drawn \<and>
    named_temporary_file w' \<lparr>svg_width = 1200, svg_height = 800, elements = drawn\<rparr> = Inr name \<longrightarrow>
      generate_mindmap w request
        = (Inr \<lparr>path = name, media_type = ascii ''image/svg+xml'',
                filename = ascii ''mindmap_'' @ strftime (now w') @ ascii ''.svg'',
                document = \<lparr>svg_width = 1200, svg_height = 800, elements = drawn\<rparr>\<rparr>, w'))"
proof (intro conjI impI)
  assume "choose_markdown w request = (Inr md, w') \<and> parse_markdown_to_simple_structure md = []"
  then show "generate_mindmap w request
        = (Inl (HTTPException 400
                  ([28961, 27861, 35299, 26512] @ ascii ''markdown'' @ [20839, 23481])), w')"
    using generate_from_choice [of w request md w'] render_response_empty [of md w']
    by (simp add: generate_handler_def)
next
  show "length (main_topics (build_topics structure))
     = length (filter (\<lambda>n. ntype n = Heading \<and> level n = 1) structure)"
    by (rule length_main_topics)
next
  show "title default_topic = [20154, 24037, 26234, 24935, 30340, 26410, 20358]"
    by (simp add: default_topic_def)
next
  show "map title (subtopics default_topic)
          = [[25216, 34899, 30332, 23637], [25033, 29992, 38936, 22495]]"
    by (simp add: default_topic_def)
next
  assume a: "structure \<noteq> [] \<and> main_topics (build_topics structure) = []"
  obtain drawn where r: "render_topic 800 default_topic = Inr drawn"
    using render_topic_Inr by blast
  with a have "create_simple_svg_mindmap structure
           = Inr \<lparr>svg_width = 1200, svg_height = 800, elements = drawn\<rparr>"
    by (simp add: create_default and_then_def)
  with r show "\<exists>drawn. render_topic 800 default_topic = Inr drawn \<and>
         create_simple_svg_mindmap structure
           = Inr \<lparr>svg_width = 1200, svg_height = 800, elements = drawn\<rparr>"
    by blast
next
  assume a: "choose_markdown w request = (Inr md, w') \<and>
    parse_markdown_to_simple_structure md \<noteq> [] \<and>
    main_topics (build_topics (parse_markdown_to_simple_structure md)) = [] \<and>
    render_topic 800 default_topic = Inr drawn \<and>
    named_temporary_file w' \<lparr>svg_width = 1200, svg_height = 800, elements = drawn\<rparr> = Inr name"
  then have c: "create_simple_svg_mindmap (parse_markdown_to_simple_structure md)
                  = Inr \<lparr>svg_width = 1200, svg_height = 800, elements = drawn\<rparr>"
    by (simp add: create_default and_then_def)
  from a have "render_response w' md
     = Inr \<lparr>path = name, media_type = ascii ''image/svg+xml'',
            filename = ascii ''mindmap_'' @ strftime (now w') @ ascii ''.svg'',
            document = \<lparr>svg_width = 1200, svg_height = 800, elements = drawn\<rparr>\<rparr>"
    using render_response_ok [OF _ c, of w' name] by blast
  with a show "generate_mindmap w request
        = (Inr \<lparr>path = name, media_type = ascii ''image/svg+xml'',
                filename = ascii ''mindmap_'' @ strftime (now w') @ ascii ''.svg'',
                document = \<lparr>svg_width = 1200, svg_height = 800, elements = drawn\<rparr>\<rparr>, w')"
    using generate_from_choice [of w request md w'] by simp
qed

theorem two_empty_states_witness:
  "generate_mindmap no_rooms_world
       (Some \<lparr>req_room_code = None, req_custom_content = Some (ascii ''hello'')\<rparr>)
     = (Inl (HTTPException 400
               ([28961, 27861, 35299, 26512] @ ascii ''markdown'' @ [20839, 23481])),
        no_rooms_world) \<and>
   parse_markdown_to_simple_structure (ascii ''## B\<newline>- x'')
     = [\<lparr>title = ascii ''B'', level = 2, ntype = Heading\<rparr>,
        \<lparr>title = ascii ''x'', level = 0, ntype = Item\<rparr>] \<and>
   main_topics (build_topics (parse_markdown_to_simple_structure (ascii ''## B\<newline>- x''))) = [] \<and>
   generate_mindmap no_rooms_world
       (Some \<lparr>req_room_code = None, req_custom_content = Some (ascii ''## B\<newline>- x'')\<rparr>)
     = (Inr \<lparr>path = ascii ''/tmp/tmpmap.svg'', media_type = ascii ''image/svg+xml'',
             filename = ascii ''mindmap_20250309_140500.svg'',
             document =
\<lparr>svg_width = 1200, svg_height = 800,
          elements =
         [Rect (PyInt 20) (PyInt 375) (PyInt 160) (PyInt 50) MainRect,
          Text (PyInt 100) (PyInt 405) MainTitle [20154, 24037, 26234, 24935, 30340, 26410, 20358],
          Path (PyInt 180) (PyInt 400) (PyInt 210) (PyInt 400) (PyInt 210) (PyInt 325),
          Line (PyInt 210) (PyInt 325) (PyInt 230) (PyInt 325) False,
          Rect (PyInt 230) (PyInt 308) (PyInt 120) (PyInt 35) BranchRect,
          Text (PyInt 290) (PyInt 329) BranchTitle [25216, 34899, 30332, 23637],
          Line (PyInt 350) (PyInt 325) (PyInt 380) (PyInt 265) True,
          Rect (PyInt 380) (PyInt 255) (PyInt 100) (PyInt 20) ItemRect,
          Text (PyInt 390) (PyInt 268) ItemText [27231, 22120, 23416, 32722, 36914, 27493],
          Line (PyInt 350) (PyInt 325) (PyInt 380) (PyInt 295) True,
          Rect (PyInt 380) (PyInt 285) (PyInt 100) (PyInt 20) ItemRect,
          Text (PyInt 390) (PyInt 298) ItemText [28145, 24230, 23416, 32722, 31361, 30772],
          Line (PyInt 350) (PyInt 325) (PyInt 380) (PyInt 325) True,
          Rect (PyInt 380) (PyInt 315) (PyInt 100) (PyInt 20) ItemRect,
          Text (PyInt 390) (PyInt 328) ItemText [33258, 28982, 35486, 35328, 34389, 29702],
          Path (PyInt 180) (PyInt 400) (PyInt 210) (PyInt 400) (PyInt 210) (PyInt 475),
          Line (PyInt 210) (PyInt 475) (PyInt 230) (PyInt 475) False,
          Rect (PyInt 230) (PyInt 458) (PyInt 120) (PyInt 35) BranchRect,
          Text (PyInt 290) (PyInt 479) BranchTitle [25033, 29992, 38936, 22495],
          Line (PyInt 350) (PyInt 475) (PyInt 380) (PyInt 415) True,
          Rect (PyInt 380) (PyInt 405) (PyInt 100) (PyInt 20) ItemRect,
          Text (PyInt 390) (PyInt 418) ItemText [37291, 30274, 35386, 26039],
          Line (PyInt 350) (PyInt 475) (PyInt 380) (PyInt 445) True,
          Rect (PyInt 380) (PyInt 435) (PyInt 100) (PyInt 20) ItemRect,
          Text (PyInt 390) (PyInt 448) ItemText [26234, 33021, 20132, 36890],
          Line (PyInt 350) (PyInt 475) (PyInt 380) (PyInt 475) True,
          Rect (PyInt 380) (PyInt 465) (PyInt 100) (PyInt 20) ItemRect,
          Text (PyInt 390) (PyInt 478) ItemText [37329, 34701, 31185, 25216]]\<rparr>\<rparr>,
        no_rooms_world)"
proof -
  let ?r1 = "Some \<lparr>req_room_code = None, req_custom_content = Some (ascii ''hello'')\<rparr>"
  let ?r2 = "Some \<lparr>req_room_code = None, req_custom_content = Some (ascii ''## B\<newline>- x'')\<rparr>"
  have c1: "choose_markdown no_rooms_world ?r1 = (Inr (ascii ''hello''), no_rooms_world)"
    by (simp add: choose_markdown_def get_or_def ascii_def)
  have p1: "parse_markdown_to_simple_structure (ascii ''hello'') = []"
    by (simp add: parse_markdown_to_simple_structure_def parse_line_def strip_def ascii_def
        py_isspace_def lstrip_chars_def startswith_def Let_def)
  have c2: "choose_markdown no_rooms_world ?r2 = (Inr (ascii ''## B\<newline>- x''), no_rooms_world)"
    by (simp add: choose_markdown_def get_or_def ascii_def)
  have p2: "parse_markdown_to_simple_structure (ascii ''## B\<newline>- x'')
     = [\<lparr>title = ascii ''B'', level = 2, ntype = Heading\<rparr>,
        \<lparr>title = ascii ''x'', level = 0, ntype = Item\<rparr>]"
    by (simp add: parse_markdown_to_simple_structure_def parse_line_def strip_def ascii_def
        py_isspace_def lstrip_chars_def startswith_def Let_def)
  have b2: "main_topics (build_topics (parse_markdown_to_simple_structure (ascii ''## B\<newline>- x''))) = []"
    unfolding p2 by (simp add: build_topics_def build_step_def)
  have ne: "parse_markdown_to_simple_structure (ascii ''## B\<newline>- x'') \<noteq> []"
    unfolding p2 by simp
  have tmp: "named_temporary_file no_rooms_world d = Inr (ascii ''/tmp/tmpmap.svg'')" for d
    by (simp add: no_rooms_world_def)
  have nw: "now no_rooms_world
              = \<lparr>year = 2025, month = 3, day = 9, hour = 14, minute = 5, second = 0\<rparr>"
    by (simp add: no_rooms_world_def)
  have fn: "ascii ''mindmap_'' @ strftime (now no_rooms_world) @ ascii ''.svg''
              = ascii ''mindmap_20250309_140500.svg''"
    unfolding nw strftime_example by (simp add: ascii_def)
  from two_empty_states [of no_rooms_world ?r1 "ascii ''hello''" no_rooms_world] c1 p1
  have g1: "generate_mindmap no_rooms_world ?r1
     = (Inl (HTTPException 400
               ([28961, 27861, 35299, 26512] @ ascii ''markdown'' @ [20839, 23481])),
        no_rooms_world)"
    by blast
  from two_empty_states [of no_rooms_world ?r2 "ascii ''## B\<newline>- x''" no_rooms_world _ _
         "ascii ''/tmp/tmpmap.svg''"] c2 ne b2 render_default_topic tmp
  have g2: "generate_mindmap no_rooms_world ?r2
     = (Inr \<lparr>path = ascii ''/tmp/tmpmap.svg'', media_type = ascii ''image/svg+xml'',
             filename = ascii ''mindmap_'' @ strftime (now no_rooms_world) @ ascii ''.svg'',
             document =
\<lparr>svg_width = 1200, svg_height = 800,
          elements =
         [Rect (PyInt 20) (PyInt 375) (PyInt 160) (PyInt 50) MainRect,
          Text (PyInt 100) (PyInt 405) MainTitle [20154, 24037, 26234, 24935, 30340, 26410, 20358],
          Path (PyInt 180) (PyInt 400) (PyInt 210) (PyInt 400) (PyInt 210) (PyInt 325),
          Line (PyInt 210) (PyInt 325) (PyInt 230) (PyInt 325) False,
          Rect (PyInt 230) (PyInt 308) (PyInt 120) (PyInt 35) BranchRect,
          Text (PyInt 290) (PyInt 329) BranchTitle [25216, 34899, 30332, 23637],
          Line (PyInt 350) (PyInt 325) (PyInt 380) (PyInt 265) True,
          Rect (PyInt 380) (PyInt 255) (PyInt 100) (PyInt 20) ItemRect,
          Text (PyInt 390) (PyInt 268) ItemText [27231, 22120, 23416, 32722, 36914, 27493],
          Line (PyInt 350) (PyInt 325) (PyInt 380) (PyInt 295) True,
          Rect (PyInt 380) (PyInt 285) (PyInt 100) (PyInt 20) ItemRect,
          Text (PyInt 390) (PyInt 298) ItemText [28145, 24230, 23416, 32722, 31361, 30772],
          Line (PyInt 350) (PyInt 325) (PyInt 380) (PyInt 325) True,
          Rect (PyInt 380) (PyInt 315) (PyInt 100) (PyInt 20) ItemRect,
          Text (PyInt 390) (PyInt 328) ItemText [33258, 28982, 35486, 35328, 34389, 29702],
          Path (PyInt 180) (PyInt 400) (PyInt 210) (PyInt 400) (PyInt 210) (PyInt 475),
          Line (PyInt 210) (PyInt 475) (PyInt 230) (PyInt 475) False,
          Rect (PyInt 230) (PyInt 458) (PyInt 120) (PyInt 35) BranchRect,
          Text (PyInt 290) (PyInt 479) BranchTitle [25033, 29992, 38936, 22495],
          Line (PyInt 350) (PyInt 475) (PyInt 380) (PyInt 415) True,
          Rect (PyInt 380) (PyInt 405) (PyInt 100) (PyInt 20) ItemRect,
          Text (PyInt 390) (PyInt 418) ItemText [37291, 30274, 35386, 26039],
          Line (PyInt 350) (PyInt 475) (PyInt 380) (PyInt 445) True,
          Rect (PyInt 380) (PyInt 435) (PyInt 100) (PyInt 20) ItemRect,
          Text (PyInt 390) (PyInt 448) ItemText [26234, 33021, 20132, 36890],
          Line (PyInt 350) (PyInt 475) (PyInt 380) (PyInt 475) True,
          Rect (PyInt 380) (PyInt 465) (PyInt 100) (PyInt 20) ItemRect,
          Text (PyInt 390) (PyInt 478) ItemText [37329, 34701, 31185, 25216]]\<rparr>\<rparr>,
        no_rooms_world)"
    by blast
  from g1 p2 b2 g2 show ?thesis unfolding fn by blast
qed

end
